theory Spec2Isabelle
  imports Complex_Main "HOL-Library.Word" "HOL-Library.Char_ord" "HOL-Library.List_Lexorder"
begin

unbundle bit_operations_syntax

section \<open>Attendance by face recognition: the identity-matching and ledger core\<close>

text \<open>
  The development follows the four Python modules of the repository:
  \<^verbatim>\<open>server_main.py\<close> (recognition and the attendance endpoint),
  \<^verbatim>\<open>_data_persistance.py\<close> (the SQLite tables \<^verbatim>\<open>magang\<close> and \<^verbatim>\<open>absensi\<close>),
  \<^verbatim>\<open>training_embedding.py\<close> (aggregation of training embeddings) and
  \<^verbatim>\<open>utils.py\<close>.

  Numbers: numpy computes on \<^verbatim>\<open>float32\<close>. The values of that type (the finite ones, the
  two infinities and NaN) and its arithmetic, each result rounded to the nearest value,
  are modelled below, and the recognition (the definitions named \<open>_f32\<close>) and the mean of
  the training embeddings are written with them. The guard of
  \<^verbatim>\<open>calculate_cosine_distance\<close> against a zero norm, the empty roster and the endpoint
  are stated on a second reading of the same functions, over \<^typ>\<open>real\<close>, in which a
  division by zero is an outcome of its own. A stored embedding is a sequence of 32-bit
  patterns, and its BLOB a sequence of bytes.
\<close>

subsection \<open>Exceptions\<close>

datatype py_exception =
    ValueError
  | TypeError
  | ZeroDivisionError
  | sqlite3_Error string

subsection \<open>The reading over the reals: floats that may be infinite\<close>

datatype pyfloat = Float real | Inf

fun float_lt :: "pyfloat \<Rightarrow> pyfloat \<Rightarrow> bool" where
  "float_lt (Float a) (Float b) = (a < b)"
| "float_lt (Float a) Inf = True"
| "float_lt Inf b = False"

definition float_gt :: "pyfloat \<Rightarrow> pyfloat \<Rightarrow> bool" where
  "float_gt a b = float_lt b a"

subsection \<open>\<^verbatim>\<open>server_main.py\<close> over the reals: cosine distance\<close>

definition SIMILARITY_THRESHOLD :: real where
  "SIMILARITY_THRESHOLD = 95 / 100"

text \<open>\<^verbatim>\<open>np.dot\<close> on two flattened arrays: the lengths must agree, or numpy raises
  \<^verbatim>\<open>ValueError\<close> (shapes not aligned).\<close>

definition np_dot :: "real list \<Rightarrow> real list \<Rightarrow> py_exception + real" where
  "np_dot a b =
     (if length a \<noteq> length b then Inl ValueError
      else Inr (sum_list (map2 (*) a b)))"

text \<open>\<^verbatim>\<open>np.linalg.norm\<close> with the default order: the L2 (Frobenius) norm.\<close>

definition np_linalg_norm :: "real list \<Rightarrow> real" where
  "np_linalg_norm a = sqrt (sum_list (map (\<lambda>x. x * x) a))"

text \<open>The division of line 45. Division is total in HOL, so the zero divisor is an
  outcome of its own here: a result \<^term>\<open>Inl ZeroDivisionError\<close> of the model means that
  the division was reached with a zero divisor.\<close>

definition true_divide :: "real \<Rightarrow> real \<Rightarrow> py_exception + real" where
  "true_divide x y = (if y = 0 then Inl ZeroDivisionError else Inr (x / y))"

definition calculate_cosine_distance :: "real list \<Rightarrow> real list \<Rightarrow> py_exception + real" where
  "calculate_cosine_distance emb1 emb2 =
     (case np_dot emb1 emb2 of
        Inl e \<Rightarrow> Inl e
      | Inr dot_product \<Rightarrow>
          (let norm_emb1 = np_linalg_norm emb1;
               norm_emb2 = np_linalg_norm emb2
           in if norm_emb1 = 0 \<or> norm_emb2 = 0 then Inr 1
              else (case true_divide dot_product (norm_emb1 * norm_emb2) of
                      Inl e \<Rightarrow> Inl e
                    | Inr cosine_similarity \<Rightarrow> Inr (1 - cosine_similarity))))"

subsection \<open>\<^verbatim>\<open>server_main.py\<close> over the reals: the scan of the roster\<close>

text \<open>An element of \<^verbatim>\<open>MAGANG_EMBEDDINGS\<close>: the dictionary with the keys
  \<^verbatim>\<open>'id'\<close>, \<^verbatim>\<open>'name'\<close> and \<^verbatim>\<open>'embedding'\<close>. The type of the array's elements
  is a parameter: 32-bit patterns as loaded from the table, reals where the distance is
  computed.\<close>

record 'a magang =
  m_id :: string
  m_name :: string
  m_embedding :: "'a list"

type_synonym best_match = "pyfloat \<times> string \<times> string"

text \<open>The \<^verbatim>\<open>for\<close> loop of \<^verbatim>\<open>recognize_face\<close>; the accumulator holds
  \<^verbatim>\<open>min_distance\<close>, \<^verbatim>\<open>best_match_id\<close> and \<^verbatim>\<open>best_match_name\<close>.\<close>

fun scan_roster :: "real list \<Rightarrow> real magang list \<Rightarrow> best_match \<Rightarrow> py_exception + best_match" where
  "scan_roster live_embedding [] acc = Inr acc"
| "scan_roster live_embedding (m # ms) (min_distance, best_match_id, best_match_name) =
     (case calculate_cosine_distance live_embedding (m_embedding m) of
        Inl e \<Rightarrow> Inl e
      | Inr distance \<Rightarrow>
          if float_lt (Float distance) min_distance
          then scan_roster live_embedding ms (Float distance, m_id m, m_name m)
          else scan_roster live_embedding ms (min_distance, best_match_id, best_match_name))"

definition recognize_face :: "real magang list \<Rightarrow> real list \<Rightarrow> py_exception + (string \<times> pyfloat \<times> string)" where
  "recognize_face MAGANG_EMBEDDINGS live_embedding =
     (if MAGANG_EMBEDDINGS = [] then Inr (''UNKNOWN'', Float 999, ''UNKNOWN'')
      else (case scan_roster live_embedding MAGANG_EMBEDDINGS (Inf, ''UNKNOWN'', ''UNKNOWN'') of
              Inl e \<Rightarrow> Inl e
            | Inr (min_distance, best_match_id, best_match_name) \<Rightarrow>
                if float_gt min_distance (Float SIMILARITY_THRESHOLD)
                then Inr (''UNKNOWN'', min_distance, ''UNKNOWN'')
                else Inr (best_match_id, min_distance, best_match_name)))"

subsection \<open>\<^verbatim>\<open>float32\<close>: values, rounding and arithmetic\<close>

text \<open>A value of numpy's \<^verbatim>\<open>float32\<close> (and of Python's \<^verbatim>\<open>float\<close> where the two are
  compared): a finite number, an infinity or NaN. The two zeros are one value here, and so
  are all NaNs.\<close>

datatype np_float32 = Finite real | PosInf | NegInf | NaN

text \<open>Rounding to the nearest \<^verbatim>\<open>float32\<close>, ties to the even significand, as IEEE 754
  has it: 24 significant bits, the exponent of the binade not below -126 (the subnormal
  numbers have the spacing \<open>2 ^ -149\<close>), and an infinity where the rounded magnitude reaches
  \<open>2 ^ 128\<close>.\<close>

definition pow2 :: "int \<Rightarrow> real" where
  "pow2 e = (if 0 \<le> e then 2 ^ nat e else 1 / 2 ^ nat (- e))"

definition round_half_even :: "real \<Rightarrow> int" where
  "round_half_even q =
     (let n = \<lfloor>q\<rfloor>
      in if q - of_int n < 1 / 2 then n
         else if 1 / 2 < q - of_int n then n + 1
         else if even n then n else n + 1)"

definition float32_exponent :: "real \<Rightarrow> int" where
  "float32_exponent x = max (- 126) \<lfloor>log 2 \<bar>x\<bar>\<rfloor>"

definition round_float32 :: "real \<Rightarrow> np_float32" where
  "round_float32 x =
     (if x = 0 then Finite 0
      else (let ulp = pow2 (float32_exponent x - 23);
                r = of_int (round_half_even (x / ulp)) * ulp
            in if 2 ^ 128 \<le> \<bar>r\<bar> then (if 0 < x then PosInf else NegInf)
               else Finite r))"

text \<open>The operations on values: the exact result, rounded, on finite operands, and the
  rules of IEEE 754 for the infinities and NaN. A finite number divided by zero is an
  infinity and \<open>0 / 0\<close> is NaN: numpy warns and raises nothing.\<close>

fun fneg :: "np_float32 \<Rightarrow> np_float32" where
  "fneg (Finite x) = Finite (- x)"
| "fneg PosInf = NegInf"
| "fneg NegInf = PosInf"
| "fneg NaN = NaN"

fun fadd :: "np_float32 \<Rightarrow> np_float32 \<Rightarrow> np_float32" where
  "fadd (Finite x) (Finite y) = round_float32 (x + y)"
| "fadd NaN b = NaN"
| "fadd a NaN = NaN"
| "fadd PosInf NegInf = NaN"
| "fadd NegInf PosInf = NaN"
| "fadd PosInf b = PosInf"
| "fadd a PosInf = PosInf"
| "fadd NegInf b = NegInf"
| "fadd a NegInf = NegInf"

definition fsub :: "np_float32 \<Rightarrow> np_float32 \<Rightarrow> np_float32" where
  "fsub a b = fadd a (fneg b)"

fun fmul :: "np_float32 \<Rightarrow> np_float32 \<Rightarrow> np_float32" where
  "fmul (Finite x) (Finite y) = round_float32 (x * y)"
| "fmul NaN b = NaN"
| "fmul a NaN = NaN"
| "fmul (Finite x) b = (if x = 0 then NaN else if 0 < x then b else fneg b)"
| "fmul a (Finite y) = (if y = 0 then NaN else if 0 < y then a else fneg a)"
| "fmul PosInf b = b"
| "fmul NegInf b = fneg b"

fun fdiv :: "np_float32 \<Rightarrow> np_float32 \<Rightarrow> np_float32" where
  "fdiv (Finite x) (Finite y) =
     (if y = 0 then (if x = 0 then NaN else if 0 < x then PosInf else NegInf)
      else round_float32 (x / y))"
| "fdiv NaN b = NaN"
| "fdiv a NaN = NaN"
| "fdiv (Finite x) b = Finite 0"
| "fdiv a (Finite y) = (if 0 \<le> y then a else fneg a)"
| "fdiv a b = NaN"

fun fsqrt :: "np_float32 \<Rightarrow> np_float32" where
  "fsqrt (Finite x) = (if x < 0 then NaN else round_float32 (sqrt x))"
| "fsqrt PosInf = PosInf"
| "fsqrt NegInf = NaN"
| "fsqrt NaN = NaN"

fun flt :: "np_float32 \<Rightarrow> np_float32 \<Rightarrow> bool" where
  "flt (Finite x) (Finite y) = (x < y)"
| "flt NaN b = False"
| "flt a NaN = False"
| "flt a NegInf = False"
| "flt PosInf b = False"
| "flt NegInf b = True"
| "flt a PosInf = True"

definition feq :: "np_float32 \<Rightarrow> np_float32 \<Rightarrow> bool" where
  "feq a b \<longleftrightarrow> a \<noteq> NaN \<and> a = b"


subsection \<open>\<^verbatim>\<open>server_main.py\<close> in \<^verbatim>\<open>float32\<close>: cosine distance and the scan\<close>

text \<open>\<^verbatim>\<open>np.dot\<close> of two flattened arrays, the products added in the order of the index
  (the lengths must agree, or numpy raises \<^verbatim>\<open>ValueError\<close>), and \<^verbatim>\<open>np.linalg.norm\<close>, the
  square root of the array's product with itself.\<close>

definition np_dot_f32 :: "np_float32 list \<Rightarrow> np_float32 list \<Rightarrow> py_exception + np_float32" where
  "np_dot_f32 a b =
     (if length a \<noteq> length b then Inl ValueError
      else Inr (foldl fadd (Finite 0) (map2 fmul a b)))"

definition np_linalg_norm_f32 :: "np_float32 list \<Rightarrow> np_float32" where
  "np_linalg_norm_f32 a = fsqrt (foldl fadd (Finite 0) (map2 fmul a a))"

definition calculate_cosine_distance_f32 ::
    "np_float32 list \<Rightarrow> np_float32 list \<Rightarrow> py_exception + np_float32" where
  "calculate_cosine_distance_f32 emb1 emb2 =
     (case np_dot_f32 emb1 emb2 of
        Inl e \<Rightarrow> Inl e
      | Inr dot_product \<Rightarrow>
          (let norm_emb1 = np_linalg_norm_f32 emb1;
               norm_emb2 = np_linalg_norm_f32 emb2
           in if feq norm_emb1 (Finite 0) \<or> feq norm_emb2 (Finite 0) then Inr (Finite 1)
              else (let cosine_similarity = fdiv dot_product (fmul norm_emb1 norm_emb2)
                    in Inr (fsub (Finite 1) cosine_similarity))))"

text \<open>The glossary's cosine distance, \<open>1 - (a \<sqdot> b) / (\<parallel>a\<parallel> \<parallel>b\<parallel>)\<close>, with the value 1 where a
  norm is zero, in the arithmetic of \<^verbatim>\<open>float32\<close>: the definition the scan of the roster
  is compared with.\<close>

definition cosine_distance_f32 :: "np_float32 list \<Rightarrow> np_float32 list \<Rightarrow> np_float32" where
  "cosine_distance_f32 a b =
     (if feq (np_linalg_norm_f32 a) (Finite 0) \<or> feq (np_linalg_norm_f32 b) (Finite 0)
      then Finite 1
      else fsub (Finite 1)
             (fdiv (foldl fadd (Finite 0) (map2 fmul a b))
                   (fmul (np_linalg_norm_f32 a) (np_linalg_norm_f32 b))))"

text \<open>The \<^verbatim>\<open>for\<close> loop of \<^verbatim>\<open>recognize_face\<close> and the function itself; the scan starts
  from \<^verbatim>\<open>float('inf')\<close>. No \<^verbatim>\<open>float32\<close> lies between the constant 0.95 of the source
  and the real number \<open>95 / 100\<close>, so the comparison with the threshold is the same for
  both.\<close>

type_synonym best_match_f32 = "np_float32 \<times> string \<times> string"

fun scan_roster_f32 ::
    "np_float32 list \<Rightarrow> np_float32 magang list \<Rightarrow> best_match_f32 \<Rightarrow> py_exception + best_match_f32" where
  "scan_roster_f32 live_embedding [] acc = Inr acc"
| "scan_roster_f32 live_embedding (m # ms) (min_distance, best_match_id, best_match_name) =
     (case calculate_cosine_distance_f32 live_embedding (m_embedding m) of
        Inl e \<Rightarrow> Inl e
      | Inr distance \<Rightarrow>
          if flt distance min_distance
          then scan_roster_f32 live_embedding ms (distance, m_id m, m_name m)
          else scan_roster_f32 live_embedding ms (min_distance, best_match_id, best_match_name))"

definition recognize_face_f32 ::
    "np_float32 magang list \<Rightarrow> np_float32 list \<Rightarrow> py_exception + (string \<times> np_float32 \<times> string)" where
  "recognize_face_f32 MAGANG_EMBEDDINGS live_embedding =
     (if MAGANG_EMBEDDINGS = [] then Inr (''UNKNOWN'', Finite 999, ''UNKNOWN'')
      else (case scan_roster_f32 live_embedding MAGANG_EMBEDDINGS (PosInf, ''UNKNOWN'', ''UNKNOWN'') of
              Inl e \<Rightarrow> Inl e
            | Inr (min_distance, best_match_id, best_match_name) \<Rightarrow>
                if flt (Finite SIMILARITY_THRESHOLD) min_distance
                then Inr (''UNKNOWN'', min_distance, ''UNKNOWN'')
                else Inr (best_match_id, min_distance, best_match_name)))"


subsection \<open>Dates and \<^verbatim>\<open>strftime\<close>\<close>

record date =
  year :: nat
  month :: nat
  day :: nat

record datetime = date +
  hour :: nat
  minute :: nat
  second :: nat

definition digit_char :: "nat \<Rightarrow> char" where
  "digit_char n = char_of (48 + n mod 10)"

text \<open>\<^verbatim>\<open>%m\<close>, \<^verbatim>\<open>%d\<close>, \<^verbatim>\<open>%H\<close>, \<^verbatim>\<open>%M\<close>, \<^verbatim>\<open>%S\<close>: two digits, zero-padded.\<close>

definition zero_pad2 :: "nat \<Rightarrow> string" where
  "zero_pad2 n = [digit_char (n div 10), digit_char n]"

text \<open>\<^verbatim>\<open>%Y\<close>: the year with century, four digits for the years 1000 to 9999.\<close>

definition zero_pad4 :: "nat \<Rightarrow> string" where
  "zero_pad4 n = [digit_char (n div 1000), digit_char (n div 100), digit_char (n div 10), digit_char n]"

definition strftime_Ymd :: "'a date_scheme \<Rightarrow> string" where
  "strftime_Ymd d = zero_pad4 (year d) @ ''-'' @ zero_pad2 (month d) @ ''-'' @ zero_pad2 (day d)"

text \<open>\<^verbatim>\<open>date.today().strftime('%Y-%m-%d 00:00:00')\<close>\<close>

definition strftime_day_start :: "date \<Rightarrow> string" where
  "strftime_day_start d = strftime_Ymd d @ '' 00:00:00''"

text \<open>\<^verbatim>\<open>datetime.now().strftime("%Y-%m-%d %H:%M:%S")\<close>\<close>

definition strftime_YmdHMS :: "datetime \<Rightarrow> string" where
  "strftime_YmdHMS t =
     strftime_Ymd t @ '' '' @ zero_pad2 (hour t) @ '':'' @ zero_pad2 (minute t) @ '':''
       @ zero_pad2 (second t)"

text \<open>The dates of Python's \<^verbatim>\<open>date\<close> (years 1 to 9999), without the lengths of the
  months, and the order of the calendar: \<open>t\<close> is on the day \<open>d\<close> or after it.\<close>

definition valid_date :: "'a date_scheme \<Rightarrow> bool" where
  "valid_date d \<longleftrightarrow> 1 \<le> year d \<and> year d \<le> 9999 \<and> 1 \<le> month d \<and> month d \<le> 12
     \<and> 1 \<le> day d \<and> day d \<le> 31"

definition on_or_after :: "'a date_scheme \<Rightarrow> 'b date_scheme \<Rightarrow> bool" where
  "on_or_after t d \<longleftrightarrow>
     year d < year t
     \<or> (year d = year t \<and> (month d < month t \<or> (month d = month t \<and> day d \<le> day t)))"

subsection \<open>\<^verbatim>\<open>float32\<close> arrays and their bytes\<close>

type_synonym byte = "8 word"
type_synonym float32 = "32 word"

text \<open>\<^verbatim>\<open>ndarray.tobytes()\<close> of a \<^verbatim>\<open>float32\<close> array: four bytes for each element, the least
  significant first, and no length prefix.\<close>

definition float32_tobytes :: "float32 \<Rightarrow> byte list" where
  "float32_tobytes w =
     [ucast w, ucast (drop_bit 8 w), ucast (drop_bit 16 w), ucast (drop_bit 24 w)]"

definition tobytes :: "float32 list \<Rightarrow> byte list" where
  "tobytes ws = concat (map float32_tobytes ws)"

definition float32_frombytes :: "byte \<Rightarrow> byte \<Rightarrow> byte \<Rightarrow> byte \<Rightarrow> float32" where
  "float32_frombytes b0 b1 b2 b3 =
     ucast b0 OR push_bit 8 (ucast b1) OR push_bit 16 (ucast b2) OR push_bit 24 (ucast b3)"

text \<open>\<^verbatim>\<open>np.frombuffer(blob, dtype=np.float32)\<close>: a buffer whose size is not a multiple of
  the element size raises \<^verbatim>\<open>ValueError\<close>.\<close>

fun np_frombuffer :: "byte list \<Rightarrow> py_exception + float32 list" where
  "np_frombuffer [] = Inr []"
| "np_frombuffer (b0 # b1 # b2 # b3 # bs) =
     (case np_frombuffer bs of
        Inl e \<Rightarrow> Inl e
      | Inr ws \<Rightarrow> Inr (float32_frombytes b0 b1 b2 b3 # ws))"
| "np_frombuffer bs = Inl ValueError"

subsection \<open>\<^verbatim>\<open>_data_persistance.py\<close>: the database\<close>

text \<open>A row of the table \<^verbatim>\<open>magang\<close> (\<^verbatim>\<open>id TEXT PRIMARY KEY, nama, master_embedding BLOB,
  last_updated\<close>) and a row of the table \<^verbatim>\<open>absensi\<close> (\<^verbatim>\<open>id INTEGER PRIMARY KEY, magang_id,
  nama, timestamp, type\<close>).\<close>

record magang_row =
  row_id :: string
  row_nama :: string
  row_master_embedding :: "byte list"
  row_last_updated :: string

record absensi_row =
  absensi_id :: nat
  absensi_magang_id :: string
  absensi_nama :: string
  absensi_timestamp :: string
  absensi_type :: string

text \<open>The database file: each table is there or not (before
  \<^verbatim>\<open>create_initial_tables\<close> it is not, and a statement on it raises
  \<^verbatim>\<open>sqlite3.OperationalError\<close>). The file itself may be impossible to open, which is
  \<^term>\<open>None\<close>; then \<^verbatim>\<open>sqlite3.connect\<close> raises.\<close>

record database =
  magang_table :: "magang_row list option"
  absensi_table :: "absensi_row list option"

type_synonym db_file = "database option"

definition sqlite3_connect :: "db_file \<Rightarrow> py_exception + database" where
  "sqlite3_connect f =
     (case f of
        None \<Rightarrow> Inl (sqlite3_Error ''unable to open database file'')
      | Some db \<Rightarrow> Inr db)"

definition create_initial_tables :: "db_file \<Rightarrow> db_file" where
  "create_initial_tables f =
     (case sqlite3_connect f of
        Inl e \<Rightarrow> f
      | Inr db \<Rightarrow>
          Some (db\<lparr>magang_table := Some (case magang_table db of None \<Rightarrow> [] | Some rows \<Rightarrow> rows),
                   absensi_table := Some (case absensi_table db of None \<Rightarrow> [] | Some rows \<Rightarrow> rows)\<rparr>))"

text \<open>\<^verbatim>\<open>DELETE FROM magang\<close>. The statement on \<^verbatim>\<open>sqlite_sequence\<close> that follows it has
  its own \<^verbatim>\<open>try\<close> and changes no table of the model.\<close>

definition clear_magang_table :: "db_file \<Rightarrow> db_file" where
  "clear_magang_table f =
     (case sqlite3_connect f of
        Inl e \<Rightarrow> f
      | Inr db \<Rightarrow>
          (case magang_table db of
             None \<Rightarrow> f
           | Some rows \<Rightarrow> Some (db\<lparr>magang_table := Some []\<rparr>)))"

text \<open>\<^verbatim>\<open>INSERT OR REPLACE\<close> on a table with a primary key: the rows in conflict with the
  new one are deleted, then the new row is inserted.\<close>

definition insert_or_replace :: "magang_row \<Rightarrow> magang_row list \<Rightarrow> magang_row list" where
  "insert_or_replace r rows = filter (\<lambda>x. row_id x \<noteq> row_id r) rows @ [r]"

text \<open>\<^verbatim>\<open>str(e)\<close> for the exception caught: the message of an \<^verbatim>\<open>sqlite3.Error\<close>.\<close>

fun str_exception :: "py_exception \<Rightarrow> string" where
  "str_exception (sqlite3_Error msg) = msg"
| "str_exception ValueError = ''ValueError''"
| "str_exception TypeError = ''TypeError''"
| "str_exception ZeroDivisionError = ''ZeroDivisionError''"

text \<open>The \<^verbatim>\<open>INSERT OR REPLACE INTO magang\<close> of \<^verbatim>\<open>save_new_magang\<close>.\<close>

definition execute_insert_or_replace :: "database \<Rightarrow> magang_row \<Rightarrow> py_exception + database" where
  "execute_insert_or_replace db r =
     (case magang_table db of
        None \<Rightarrow> Inl (sqlite3_Error ''no such table: magang'')
      | Some rows \<Rightarrow> Inr (db\<lparr>magang_table := Some (insert_or_replace r rows)\<rparr>))"

text \<open>\<^verbatim>\<open>save_new_magang\<close>. The cast \<^verbatim>\<open>astype(np.float32)\<close> of the array's elements is a
  parameter; \<open>now\<close> is what \<^verbatim>\<open>datetime.now()\<close> reads. The result is the returned pair
  and the database file after the call.\<close>

definition save_new_magang ::
    "('a \<Rightarrow> float32) \<Rightarrow> datetime \<Rightarrow> db_file \<Rightarrow> string \<Rightarrow> string \<Rightarrow> 'a list
      \<Rightarrow> (bool \<times> string) \<times> db_file" where
  "save_new_magang astype_float32 now f magang_id magang_name embedding_array =
     (case sqlite3_connect f of
        Inl e \<Rightarrow> ((False, ''Gagal menyimpan data magang: '' @ str_exception e), f)
      | Inr db \<Rightarrow>
          (let embedding_blob = tobytes (map astype_float32 embedding_array);
               current_time = strftime_YmdHMS now
           in case execute_insert_or_replace db
                     \<lparr>row_id = magang_id, row_nama = magang_name,
                      row_master_embedding = embedding_blob,
                      row_last_updated = current_time\<rparr> of
                Inl e \<Rightarrow> ((False, ''Gagal menyimpan data magang: '' @ str_exception e), f)
              | Inr db' \<Rightarrow>
                  ((True, ''Data Magang '' @ [CHR 0x27] @ magang_name @ [CHR 0x27]
                            @ '' berhasil disimpan/diperbarui.''),
                   Some db')))"

text \<open>The loop of \<^verbatim>\<open>load_all_magang_embeddings\<close> over the fetched rows.\<close>

fun load_rows :: "magang_row list \<Rightarrow> py_exception + float32 magang list" where
  "load_rows [] = Inr []"
| "load_rows (row # rows) =
     (case np_frombuffer (row_master_embedding row) of
        Inl e \<Rightarrow> Inl e
      | Inr embedding_array \<Rightarrow>
          (case load_rows rows of
             Inl e \<Rightarrow> Inl e
           | Inr magang_list \<Rightarrow>
               Inr (\<lparr>m_id = row_id row, m_name = row_nama row,
                     m_embedding = embedding_array\<rparr> # magang_list)))"

text \<open>\<^verbatim>\<open>load_all_magang_embeddings\<close>: an \<^verbatim>\<open>sqlite3.Error\<close> is logged and the empty
  list returned; the \<^verbatim>\<open>ValueError\<close> of \<^verbatim>\<open>np.frombuffer\<close> is not caught.\<close>

definition load_all_magang_embeddings :: "db_file \<Rightarrow> py_exception + float32 magang list" where
  "load_all_magang_embeddings f =
     (case sqlite3_connect f of
        Inl e \<Rightarrow> Inr []
      | Inr db \<Rightarrow>
          (case magang_table db of
             None \<Rightarrow> Inr []
           | Some rows \<Rightarrow> load_rows rows))"

text \<open>The \<^verbatim>\<open>SELECT\<close> of \<^verbatim>\<open>check_already_absen\<close>. SQLite compares \<^verbatim>\<open>TEXT\<close> values
  byte by byte, a proper prefix being smaller: the lexicographic order of strings.\<close>

definition select_absensi_since ::
    "database \<Rightarrow> string \<Rightarrow> string \<Rightarrow> string \<Rightarrow> py_exception + absensi_row list" where
  "select_absensi_since db magang_id log_type today_start =
     (case absensi_table db of
        None \<Rightarrow> Inl (sqlite3_Error ''no such table: absensi'')
      | Some rows \<Rightarrow>
          Inr (take 1 (filter (\<lambda>r. absensi_magang_id r = magang_id \<and> absensi_type r = log_type
                                  \<and> absensi_timestamp r \<ge> today_start) rows)))"

text \<open>\<^verbatim>\<open>check_already_absen\<close>; \<open>today\<close> is what \<^verbatim>\<open>date.today()\<close> reads.\<close>

definition check_already_absen :: "date \<Rightarrow> db_file \<Rightarrow> string \<Rightarrow> string \<Rightarrow> bool" where
  "check_already_absen today f magang_id log_type =
     (let today_start = strftime_day_start today
      in case sqlite3_connect f of
           Inl e \<Rightarrow> False
         | Inr db \<Rightarrow>
             (case select_absensi_since db magang_id log_type today_start of
                Inl e \<Rightarrow> False
              | Inr fetched \<Rightarrow> fetched \<noteq> []))"

text \<open>The rowid SQLite gives to a row inserted into a table with
  \<^verbatim>\<open>INTEGER PRIMARY KEY\<close>: one more than the largest in the table.\<close>

definition next_rowid :: "absensi_row list \<Rightarrow> nat" where
  "next_rowid rows = (if rows = [] then 1 else Max (set (map absensi_id rows)) + 1)"

text \<open>\<^verbatim>\<open>update_absensi_log\<close>: the error of a failed insert is logged, nothing is raised.\<close>

definition update_absensi_log :: "db_file \<Rightarrow> string \<Rightarrow> string \<Rightarrow> string \<Rightarrow> string \<Rightarrow> db_file" where
  "update_absensi_log f magang_id magang_name log_time log_type =
     (case sqlite3_connect f of
        Inl e \<Rightarrow> f
      | Inr db \<Rightarrow>
          (case absensi_table db of
             None \<Rightarrow> f
           | Some rows \<Rightarrow>
               Some (db\<lparr>absensi_table := Some (rows @
                  [\<lparr>absensi_id = next_rowid rows, absensi_magang_id = magang_id,
                    absensi_nama = magang_name, absensi_timestamp = log_time,
                    absensi_type = log_type\<rparr>])\<rparr>)))"

text \<open>A call of \<^verbatim>\<open>update_absensi_log(db_name, magang_id, magang_name, log_time,
  log_type='MASUK')\<close> with the positional arguments that follow \<^verbatim>\<open>db_name\<close>: the first three
  are required, the fourth has a default, and any other number of arguments raises
  \<^verbatim>\<open>TypeError\<close>.\<close>

fun call_update_absensi_log :: "db_file \<Rightarrow> string list \<Rightarrow> py_exception + db_file" where
  "call_update_absensi_log f [magang_id, magang_name, log_time] =
     Inr (update_absensi_log f magang_id magang_name log_time ''MASUK'')"
| "call_update_absensi_log f [magang_id, magang_name, log_time, log_type] =
     Inr (update_absensi_log f magang_id magang_name log_time log_type)"
| "call_update_absensi_log f args = Inl TypeError"

subsection \<open>\<^verbatim>\<open>server_main.py\<close>: the endpoint \<^verbatim>\<open>/absensi\<close>\<close>

text \<open>The responses of the endpoint: the status code and, of the JSON content, the fields
  \<^verbatim>\<open>status\<close>, \<^verbatim>\<open>magang_id\<close> and \<^verbatim>\<open>distance\<close> (the message, the audio and the processing
  time are left out); or the \<^verbatim>\<open>HTTPException\<close> raised by the handler's \<^verbatim>\<open>except\<close>.\<close>

datatype response =
    JSONResponse nat string "string option" "pyfloat option"
  | HTTPException nat py_exception

text \<open>\<^verbatim>\<open>absensi_endpoint\<close>, from the result of the face detector and of the embedding
  network on the uploaded image (\<^term>\<open>None\<close>: no face found).\<close>

definition absensi_endpoint ::
    "real magang list \<Rightarrow> db_file \<Rightarrow> real list option \<Rightarrow> response \<times> db_file" where
  "absensi_endpoint MAGANG_EMBEDDINGS f face =
     (case face of
        None \<Rightarrow> (JSONResponse 400 ''FAIL'' None None, f)
      | Some live_embedding \<Rightarrow>
          (case recognize_face MAGANG_EMBEDDINGS live_embedding of
             Inl e \<Rightarrow> (HTTPException 500 e, f)
           | Inr (id_magang, distance, nama) \<Rightarrow>
               if id_magang \<noteq> ''UNKNOWN''
               then (case call_update_absensi_log f [id_magang, nama] of
                       Inl e \<Rightarrow> (HTTPException 500 e, f)
                     | Inr f' \<Rightarrow>
                         (JSONResponse 200 ''SUCCESS'' (Some id_magang) (Some distance), f'))
               else (JSONResponse 403 ''FAIL'' None (Some distance), f)))"

subsection \<open>\<^verbatim>\<open>training_embedding.py\<close>: one identity of the training run\<close>

text \<open>\<^verbatim>\<open>np.mean(embeddings, axis=0)\<close> on a non-empty list of \<^verbatim>\<open>float32\<close> arrays, given
  as its first array and the others: the arrays are added one after the other, each sum
  rounded to \<^verbatim>\<open>float32\<close>, and the total is divided by the number of arrays. The arrays
  must have one length, or numpy raises \<^verbatim>\<open>ValueError\<close>.\<close>

definition np_mean_axis0 ::
    "np_float32 list \<Rightarrow> np_float32 list list \<Rightarrow> py_exception + np_float32 list" where
  "np_mean_axis0 e es =
     (if \<exists>x\<in>set es. length x \<noteq> length e then Inl ValueError
      else Inr (map (\<lambda>s. fdiv s (round_float32 (real (length (e # es)))))
                  (foldl (map2 fadd) e es)))"

text \<open>A column of numbers is averaged without rounding: every running sum, the number of
  its entries and the quotient are values of \<^verbatim>\<open>float32\<close>.\<close>

definition no_rounding :: "real list \<Rightarrow> bool" where
  "no_rounding col \<longleftrightarrow>
     (\<forall>n. 0 < n \<and> n \<le> length col \<longrightarrow>
        round_float32 (sum_list (take n col)) = Finite (sum_list (take n col)))
     \<and> round_float32 (real (length col)) = Finite (real (length col))
     \<and> round_float32 (sum_list col / real (length col))
         = Finite (sum_list col / real (length col))"

text \<open>Lines 133 to 143, the end of the loop body of \<^verbatim>\<open>process_and_save_embeddings\<close>
  for one identity whose embeddings have been extracted: the state is the database file and
  the counter \<^verbatim>\<open>total_wajah_diproses\<close>.\<close>

definition process_magang ::
    "(np_float32 \<Rightarrow> float32) \<Rightarrow> datetime \<Rightarrow> db_file \<times> nat \<Rightarrow> string \<Rightarrow> string
      \<Rightarrow> np_float32 list list \<Rightarrow> py_exception + db_file \<times> nat" where
  "process_magang astype_float32 now st magang_id magang_name embeddings =
     (case st of (f, total_wajah_diproses) \<Rightarrow>
        (case embeddings of
           [] \<Rightarrow> Inr (f, total_wajah_diproses)
         | e # es \<Rightarrow>
             (case np_mean_axis0 e es of
                Inl err \<Rightarrow> Inl err
              | Inr avg_embedding \<Rightarrow>
                  Inr (snd (save_new_magang astype_float32 now f magang_id magang_name
                              avg_embedding),
                       total_wajah_diproses + length embeddings))))"

text \<open>A roster of three, two of them with the same reference embedding.\<close>

definition example_roster :: "real magang list" where
  "example_roster =
     [\<lparr>m_id = ''A001'', m_name = ''Ana'', m_embedding = [1, 0]\<rparr>,
      \<lparr>m_id = ''B002'', m_name = ''Budi'', m_embedding = [1, 0]\<rparr>,
      \<lparr>m_id = ''C003'', m_name = ''Citra'', m_embedding = [0, 1]\<rparr>]"

text \<open>The same roster in \<^verbatim>\<open>float32\<close>, a roster whose one embedding has a square beyond
  the range of \<^verbatim>\<open>float32\<close>, and a cast to bit patterns for the examples.\<close>

definition example_roster_f32 :: "np_float32 magang list" where
  "example_roster_f32 =
     [\<lparr>m_id = ''A001'', m_name = ''Ana'', m_embedding = [Finite 1, Finite 0]\<rparr>,
      \<lparr>m_id = ''B002'', m_name = ''Budi'', m_embedding = [Finite 1, Finite 0]\<rparr>,
      \<lparr>m_id = ''C003'', m_name = ''Citra'', m_embedding = [Finite 0, Finite 1]\<rparr>]"


text \<open>A roster of two whose second entry is not parallel to the first, but close to
  it.\<close>

definition rounding_roster_f32 :: "np_float32 magang list" where
  "rounding_roster_f32 =
     [\<lparr>m_id = ''A001'', m_name = ''Ana'', m_embedding = [Finite 1, Finite 2, Finite 3]\<rparr>,
      \<lparr>m_id = ''B002'', m_name = ''Budi'',
        m_embedding = [Finite 999, Finite 2000, Finite 3000]\<rparr>]"

definition example_astype :: "np_float32 \<Rightarrow> float32" where
  "example_astype v = (case v of Finite r \<Rightarrow> word_of_int \<lfloor>r\<rfloor> | _ \<Rightarrow> 0)"

text \<open>A database with both tables empty, a ledger with an entry of the day before and one
  at midnight, and the day they are read on.\<close>

definition example_db :: db_file where
  "example_db = Some \<lparr>magang_table = Some [], absensi_table = Some []\<rparr>"

definition example_ledger :: db_file where
  "example_ledger = Some \<lparr>magang_table = Some [], absensi_table = Some
     [\<lparr>absensi_id = 1, absensi_magang_id = ''A001'', absensi_nama = ''Ana'',
       absensi_timestamp = ''2026-11-03 08:01:12'', absensi_type = ''MASUK''\<rparr>,
      \<lparr>absensi_id = 2, absensi_magang_id = ''A001'', absensi_nama = ''Ana'',
       absensi_timestamp = ''2026-11-04 00:00:00'', absensi_type = ''MASUK''\<rparr>]\<rparr>"

definition example_today :: date where
  "example_today = \<lparr>year = 2026, month = 11, day = 4\<rparr>"

text \<open>The times the two entries of the ledger were written at.\<close>

definition example_stamp :: "absensi_row \<Rightarrow> datetime" where
  "example_stamp r =
     (if absensi_id r = 1
      then \<lparr>year = 2026, month = 11, day = 3, hour = 8, minute = 1, second = 12\<rparr>
      else \<lparr>year = 2026, month = 11, day = 4, hour = 0, minute = 0, second = 0\<rparr>)"

definition no_tables :: db_file where
  "no_tables = Some \<lparr>magang_table = None, absensi_table = None\<rparr>"

subsection \<open>The roster at rest\<close>

text \<open>The rows of the table \<^verbatim>\<open>magang\<close> in a database file (none where the file or the
  table is missing), and the invariant of the table: at most one row for each id.\<close>

definition magang_rows :: "db_file \<Rightarrow> magang_row list" where
  "magang_rows f =
     (case f of
        None \<Rightarrow> []
      | Some db \<Rightarrow> (case magang_table db of None \<Rightarrow> [] | Some rows \<Rightarrow> rows))"

definition one_record_per_id :: "db_file \<Rightarrow> bool" where
  "one_record_per_id f = distinct (map row_id (magang_rows f))"

text \<open>A table \<^verbatim>\<open>magang\<close> of two rows, and a time of writing.\<close>

definition example_rows :: "magang_row list" where
  "example_rows =
     [\<lparr>row_id = ''A001'', row_nama = ''Ana'', row_master_embedding = tobytes [1, 2],
       row_last_updated = ''2026-11-01 10:00:00''\<rparr>,
      \<lparr>row_id = ''B002'', row_nama = ''Budi'', row_master_embedding = tobytes [3, 4],
       row_last_updated = ''2026-11-01 10:00:05''\<rparr>]"

definition example_store :: db_file where
  "example_store = Some \<lparr>magang_table = Some example_rows, absensi_table = Some []\<rparr>"

definition example_now :: datetime where
  "example_now = \<lparr>year = 2026, month = 11, day = 4, hour = 9, minute = 5, second = 0\<rparr>"

section \<open>Properties\<close>

subsection \<open>Cosine distance\<close>

text \<open>
  Claim C3. For two embeddings of the same dimension, if either has L2 norm zero then
  \<^verbatim>\<open>calculate_cosine_distance\<close> returns exactly 1.0; and on no input at all is the
  division reached with a zero divisor.
\<close>

theorem cosine_distance_zero_norm:
  "(length emb1 = length emb2 \<and> (np_linalg_norm emb1 = 0 \<or> np_linalg_norm emb2 = 0)
      \<longrightarrow> calculate_cosine_distance emb1 emb2 = Inr 1)
   \<and> calculate_cosine_distance emb1 emb2 \<noteq> Inl ZeroDivisionError"
  by (auto simp: calculate_cosine_distance_def np_dot_def true_divide_def Let_def)

theorem cosine_distance_zero_norm_witness:
  "length [0, 0 :: real] = length [3, 4 :: real]
   \<and> np_linalg_norm [0, 0] = 0
   \<and> calculate_cosine_distance [0, 0] [3, 4] = Inr 1
   \<and> calculate_cosine_distance [0, 0] [3, 4] \<noteq> Inl ZeroDivisionError"
  using cosine_distance_zero_norm [of "[0, 0]" "[3, 4]"]
  by (simp add: np_linalg_norm_def)

subsection \<open>The empty roster\<close>

text \<open>
  Claim C4. With an empty working roster \<^verbatim>\<open>recognize_face\<close> returns
  \<^verbatim>\<open>("UNKNOWN", 999.0, "UNKNOWN")\<close> for every live embedding, whatever its shape: the
  sentinel 999.0 stands for the infinite distance, and nothing is scanned or computed.
\<close>

theorem recognize_face_empty_roster:
  "recognize_face [] live_embedding = Inr (''UNKNOWN'', Float 999, ''UNKNOWN'')"
  by (simp add: recognize_face_def)

subsection \<open>Rounding to \<^verbatim>\<open>float32\<close>\<close>

lemma pow2_powr: "pow2 e = 2 powr (of_int e)"
proof (cases "0 \<le> e")
  case True
  then show ?thesis by (simp add: pow2_def powr_realpow [symmetric])
next
  case False
  then have "(2::real) powr (of_int e) = 1 / 2 powr (of_int (- e))"
    by (simp add: powr_minus_divide)
  also have "\<dots> = 1 / 2 ^ nat (- e)"
    using False by (simp add: powr_realpow [symmetric])
  finally show ?thesis using False by (simp add: pow2_def)
qed

lemma pow2_pos [simp]: "0 < pow2 e"
  by (simp add: pow2_powr)

lemma floor_log2_eq:
  assumes "pow2 k \<le> \<bar>x\<bar>" and "\<bar>x\<bar> < pow2 (k + 1)"
  shows "\<lfloor>log 2 \<bar>x\<bar>\<rfloor> = k"
proof (rule floor_unique)
  have pos: "0 < \<bar>x\<bar>" using assms(1) pow2_pos [of k] by linarith
  show "of_int k \<le> log 2 \<bar>x\<bar>"
    using assms(1) pos by (simp add: le_log_iff pow2_powr)
  have "log 2 \<bar>x\<bar> < of_int (k + 1)"
    using assms(2) pos by (simp add: log_less_iff pow2_powr)
  then show "log 2 \<bar>x\<bar> < of_int k + 1" by simp
qed

lemma float32_exponent_normal:
  assumes "pow2 k \<le> \<bar>x\<bar>" and "\<bar>x\<bar> < pow2 (k + 1)" and "- 126 \<le> k"
  shows "float32_exponent x = k"
  using floor_log2_eq [OF assms(1,2)] assms(3) by (simp add: float32_exponent_def)

lemma round_float32_normal:
  assumes "pow2 k \<le> \<bar>x\<bar>" and "\<bar>x\<bar> < pow2 (k + 1)" and "- 126 \<le> k"
  shows "round_float32 x =
     (let ulp = pow2 (k - 23); r = of_int (round_half_even (x / ulp)) * ulp
      in if 2 ^ 128 \<le> \<bar>r\<bar> then (if 0 < x then PosInf else NegInf) else Finite r)"
proof -
  have "0 < \<bar>x\<bar>" using assms(1) pow2_pos [of k] by linarith
  then have "x \<noteq> 0" by simp
  then show ?thesis
    by (simp add: round_float32_def float32_exponent_normal [OF assms])
qed


lemma pow2_nonneg [simp]: "0 \<le> pow2 e"
  using pow2_pos [of e] by (rule less_imp_le)



lemma pow2_nat: "pow2 (int n) = 2 ^ n"
  by (simp add: pow2_def)





lemma round_float32_0 [simp]: "round_float32 0 = Finite 0"
  by (simp add: round_float32_def)

lemma round_float32_1 [simp]: "round_float32 1 = Finite 1"
  by (simp add: round_float32_normal [of 0] pow2_def round_half_even_def)

lemma round_float32_small:
  "round_float32 2 = Finite 2" "round_float32 3 = Finite 3" "round_float32 4 = Finite 4"
  "round_float32 5 = Finite 5" "round_float32 8 = Finite 8"
  by (simp_all add: round_float32_normal [of 1] round_float32_normal [of 2]
      round_float32_normal [of 3] pow2_def round_half_even_def)

lemma round_float32_mean_example:
  "round_float32 33554436 = Finite 33554436"
  "round_float32 33554437 = Finite 33554436"
  "round_float32 33554441 = Finite 33554440"
  "round_float32 (33554440 / 3) = Finite 11184813"
  by (simp_all add: round_float32_normal [of 25] round_float32_normal [of 23]
      pow2_def round_half_even_def)

text \<open>A number within half a unit in the last place of a \<^verbatim>\<open>float32\<close> rounds to it;
  so are the square roots of 14 and of 13998001 rounded.\<close>

lemma round_half_even_unique:
  assumes "of_int n - 1 / 2 < q" and "q < of_int n + 1 / 2"
  shows "round_half_even q = n"
proof -
  have "\<lfloor>q\<rfloor> = n \<or> \<lfloor>q\<rfloor> = n - 1"
  proof -
    have "of_int (n - 1) \<le> q" using assms(1) by simp
    then have "n - 1 \<le> \<lfloor>q\<rfloor>" by (simp only: le_floor_iff)
    moreover have "q < of_int (n + 1)" using assms(2) by simp
    then have "\<lfloor>q\<rfloor> < n + 1" by (simp only: floor_less_iff)
    ultimately show ?thesis by linarith
  qed
  then show ?thesis
  proof
    assume f: "\<lfloor>q\<rfloor> = n"
    then have "q - of_int \<lfloor>q\<rfloor> < 1 / 2" using assms(2) by simp
    then show ?thesis by (simp add: round_half_even_def Let_def f)
  next
    assume f: "\<lfloor>q\<rfloor> = n - 1"
    then have "1 / 2 < q - of_int \<lfloor>q\<rfloor>" using assms(1) by simp
    then show ?thesis by (simp add: round_half_even_def Let_def f)
  qed
qed

lemma round_float32_between:
  assumes "pow2 k \<le> \<bar>x\<bar>" and "\<bar>x\<bar> < pow2 (k + 1)" and "- 126 \<le> k"
    and "of_int n - 1 / 2 < x / pow2 (k - 23)" and "x / pow2 (k - 23) < of_int n + 1 / 2"
    and "\<bar>of_int n * pow2 (k - 23)\<bar> < 2 ^ 128"
  shows "round_float32 x = Finite (of_int n * pow2 (k - 23))"
  using assms(6)
  by (simp add: round_float32_normal [OF assms(1-3)] round_half_even_unique [OF assms(4,5)]
      Let_def)

lemma sqrt_14_f32: "round_float32 (sqrt 14) = Finite (15693649 / 4194304)"
proof -
  have lo: "2 < sqrt 14" by (rule real_less_rsqrt) simp
  have hi: "sqrt 14 < 4" by (rule real_less_lsqrt) simp_all
  have a: "31387297 / 8388608 < sqrt 14" by (rule real_less_rsqrt) (simp add: power2_eq_square)
  have b: "sqrt 14 < 31387299 / 8388608" by (rule real_less_lsqrt) (simp_all add: power2_eq_square)
  have "round_float32 (sqrt 14) = Finite (of_int 15693649 * pow2 (1 - 23))"
  proof (rule round_float32_between)
    show "pow2 1 \<le> \<bar>sqrt 14\<bar>" using lo by (simp add: pow2_def)
    show "\<bar>sqrt 14\<bar> < pow2 (1 + 1)" using hi by (simp add: pow2_def)
    show "of_int 15693649 - 1 / 2 < sqrt 14 / pow2 (1 - 23)" using a by (simp add: pow2_def)
    show "sqrt 14 / pow2 (1 - 23) < of_int 15693649 + 1 / 2" using b by (simp add: pow2_def)
  qed (simp_all add: pow2_def)
  then show ?thesis by (simp add: pow2_def)
qed

lemma sqrt_13998001_f32: "round_float32 (sqrt 13998001) = Finite (15324734 / 4096)"
proof -
  have lo: "2048 < sqrt 13998001" by (rule real_less_rsqrt) simp
  have hi: "sqrt 13998001 < 4096" by (rule real_less_lsqrt) simp_all
  have a: "30649467 / 8192 < sqrt 13998001"
    by (rule real_less_rsqrt) (simp add: power2_eq_square)
  have b: "sqrt 13998001 < 30649469 / 8192"
    by (rule real_less_lsqrt) (simp_all add: power2_eq_square)
  have "round_float32 (sqrt 13998001) = Finite (of_int 15324734 * pow2 (11 - 23))"
  proof (rule round_float32_between)
    show "pow2 11 \<le> \<bar>sqrt 13998001\<bar>" using lo by (simp add: pow2_def)
    show "\<bar>sqrt 13998001\<bar> < pow2 (11 + 1)" using hi by (simp add: pow2_def)
    show "of_int 15324734 - 1 / 2 < sqrt 13998001 / pow2 (11 - 23)"
      using a by (simp add: pow2_def)
    show "sqrt 13998001 / pow2 (11 - 23) < of_int 15324734 + 1 / 2"
      using b by (simp add: pow2_def)
  qed (simp_all add: pow2_def)
  then show ?thesis by (simp add: pow2_def)
qed

lemma round_float32_integers:
  "round_float32 9 = Finite 9" "round_float32 14 = Finite 14"
  "round_float32 999 = Finite 999" "round_float32 4000 = Finite 4000"
  "round_float32 4999 = Finite 4999" "round_float32 9000 = Finite 9000"
  "round_float32 13999 = Finite 13999" "round_float32 998001 = Finite 998001"
  "round_float32 4000000 = Finite 4000000" "round_float32 4998001 = Finite 4998001"
  "round_float32 9000000 = Finite 9000000" "round_float32 13998001 = Finite 13998001"
  by (simp_all add: round_float32_normal [of 3] round_float32_normal [of 9]
      round_float32_normal [of 11] round_float32_normal [of 12] round_float32_normal [of 13]
      round_float32_normal [of 19] round_float32_normal [of 21] round_float32_normal [of 22]
      round_float32_normal [of 23] pow2_def round_half_even_def)

text \<open>The rules for the infinities and NaN at some operands.\<close>

lemma float32_special_values:
  "fmul PosInf NegInf = NegInf" "fdiv PosInf NegInf = NaN" "fdiv NegInf (Finite (-1)) = PosInf"
  "flt (Finite 1) PosInf" "\<not> flt PosInf PosInf" "flt NegInf PosInf" "\<not> flt NegInf NegInf"
  "fadd (Finite 1) NegInf = NegInf" "fmul (Finite (-1)) NegInf = PosInf"
  "fmul (Finite 0) PosInf = NaN" "fdiv (Finite 1) PosInf = Finite 0" "fadd PosInf NegInf = NaN"
  "fdiv (Finite 0) (Finite 0) = NaN" "fdiv (Finite (-2)) (Finite 0) = NegInf"
  by simp_all

subsection \<open>The order of \<^verbatim>\<open>float32\<close> values\<close>

lemma flt_irrefl [simp]: "\<not> flt a a"
  by (cases a) simp_all





subsection \<open>The scan of a non-empty roster\<close>

lemma calculate_cosine_distance_f32_eq:
  "length a = length b \<Longrightarrow> calculate_cosine_distance_f32 a b = Inr (cosine_distance_f32 a b)"
  by (simp add: calculate_cosine_distance_f32_def cosine_distance_f32_def np_dot_f32_def Let_def)






lemma example_distances_f32:
  "cosine_distance_f32 [Finite 1, Finite 0] [Finite 1, Finite 0] = Finite 0"
  "cosine_distance_f32 [Finite 1, Finite 0] [Finite 0, Finite 1] = Finite 1"
  by (simp_all add: cosine_distance_f32_def np_linalg_norm_f32_def feq_def fsub_def)


text \<open>The same run evaluated: two entries at distance 0, and the first one is returned; and
  an entry at distance 1, above the threshold.\<close>

lemma recognize_face_f32_tie_example:
  "recognize_face_f32 example_roster_f32 [Finite 1, Finite 0] = Inr (''A001'', Finite 0, ''Ana'')"
  by (simp add: recognize_face_f32_def example_roster_f32_def calculate_cosine_distance_f32_eq
      example_distances_f32 SIMILARITY_THRESHOLD_def)

lemma recognize_face_f32_unknown_example:
  "recognize_face_f32 [\<lparr>m_id = ''C003'', m_name = ''Citra'', m_embedding = [Finite 0, Finite 1]\<rparr>]
     [Finite 1, Finite 0] = Inr (''UNKNOWN'', Finite 1, ''UNKNOWN'')"
  by (simp add: recognize_face_f32_def calculate_cosine_distance_f32_eq
      example_distances_f32 SIMILARITY_THRESHOLD_def)

text \<open>Rounding decides between two entries. The live embedding \<open>[1, 2, 3]\<close> is the
  embedding of the first entry, and over the reals its distance to it is 0 and its distance
  to the second entry, \<open>[999, 2000, 3000]\<close>, is positive. In \<^verbatim>\<open>float32\<close> the norm of
  \<open>[1, 2, 3]\<close> is \<open>15693649 / 2 ^ 22\<close>, its square rounds to a number above 14 and the first
  distance is \<open>2 ^ - 24\<close>; the product of the two norms rounds to 13999, the dot product,
  and the second distance is 0: \<^verbatim>\<open>recognize_face\<close> returns the second entry.\<close>

lemma rounding_example_norms:
  "np_linalg_norm_f32 [Finite 1, Finite 2, Finite 3] = Finite (15693649 / 4194304)"
  "np_linalg_norm_f32 [Finite 999, Finite 2000, Finite 3000] = Finite (15324734 / 4096)"
  by (simp_all add: np_linalg_norm_f32_def round_float32_small round_float32_integers
      sqrt_14_f32 sqrt_13998001_f32)

lemma rounding_example_products:
  "foldl fadd (Finite 0) (map2 fmul [Finite 1, Finite 2, Finite 3] [Finite 1, Finite 2, Finite 3])
     = Finite 14"
  "foldl fadd (Finite 0)
     (map2 fmul [Finite 1, Finite 2, Finite 3] [Finite 999, Finite 2000, Finite 3000])
     = Finite 13999"
  by (simp_all add: round_float32_small round_float32_integers)

lemma rounding_example_steps:
  "fmul (Finite (15693649 / 4194304)) (Finite (15693649 / 4194304)) = Finite (14680065 / 1048576)"
  "fdiv (Finite 14) (Finite (14680065 / 1048576)) = Finite (16777215 / 16777216)"
  "fsub (Finite 1) (Finite (16777215 / 16777216)) = Finite (1 / 16777216)"
  "fmul (Finite (15693649 / 4194304)) (Finite (15324734 / 4096)) = Finite 13999"
  "fdiv (Finite 13999) (Finite 13999) = Finite 1"
  "fsub (Finite 1) (Finite 1) = Finite 0"
  by (simp_all add: fsub_def round_float32_normal [of 3] round_float32_normal [of "- 1"]
      round_float32_normal [of "- 24"] round_float32_normal [of 13]
      pow2_def round_half_even_def)

lemma rounding_example_nonzero:
  "\<not> feq (Finite (15693649 / 4194304)) (Finite 0)"
  "\<not> feq (Finite (15324734 / 4096)) (Finite 0)"
  by (simp_all add: feq_def)

lemma rounding_example_distances:
  "cosine_distance_f32 [Finite 1, Finite 2, Finite 3] [Finite 1, Finite 2, Finite 3]
     = Finite (1 / 16777216)"
  "cosine_distance_f32 [Finite 1, Finite 2, Finite 3] [Finite 999, Finite 2000, Finite 3000]
     = Finite 0"
  by (simp_all only: cosine_distance_f32_def rounding_example_norms rounding_example_products
      rounding_example_steps rounding_example_nonzero simp_thms if_False)

lemma recognize_face_f32_rounding_example:
  "recognize_face_f32 rounding_roster_f32 [Finite 1, Finite 2, Finite 3]
     = Inr (''B002'', Finite 0, ''Budi'')"
  by (simp add: recognize_face_f32_def rounding_roster_f32_def calculate_cosine_distance_f32_eq
      rounding_example_distances SIMILARITY_THRESHOLD_def)


subsection \<open>The endpoint on a recognised face\<close>

text \<open>Whenever the face is recognised, the call of \<^verbatim>\<open>update_absensi_log\<close> at line 165
  lacks the argument \<^verbatim>\<open>log_time\<close>: the handler answers with the status 500 and the
  table \<^verbatim>\<open>absensi\<close> is as before.\<close>

lemma absensi_endpoint_recognized:
  assumes "recognize_face MAGANG_EMBEDDINGS live_embedding = Inr (id_magang, distance, nama)"
    and "id_magang \<noteq> ''UNKNOWN''"
  shows "absensi_endpoint MAGANG_EMBEDDINGS f (Some live_embedding)
           = (HTTPException 500 TypeError, f)"
  using assms by (simp add: absensi_endpoint_def)

text \<open>
  Claim C1. A live embedding that \<^verbatim>\<open>recognize_face\<close> identifies (here as A001, at
  distance 0) should append one event of type MASUK with the server's time and give the
  success response. The endpoint evaluated at such an input: no event is appended, and the
  answer is the \<^verbatim>\<open>HTTPException\<close> with status 500, from the \<^verbatim>\<open>TypeError\<close> of the call
  without \<^verbatim>\<open>log_time\<close>.
\<close>

theorem absensi_endpoint_recognized_raises:
  "recognize_face example_roster [1, 0] = Inr (''A001'', Float 0, ''Ana'')
   \<and> absensi_endpoint example_roster example_db (Some [1, 0])
       = (HTTPException 500 TypeError, example_db)"
  by (simp add: absensi_endpoint_def recognize_face_def example_roster_def
      calculate_cosine_distance_def np_dot_def np_linalg_norm_def true_divide_def
      float_gt_def SIMILARITY_THRESHOLD_def)

subsection \<open>An identity without embeddings\<close>

text \<open>
  Claim C6. For an identity whose list of embeddings is empty, the loop body writes no
  record: the database file is returned as it was, and the counter of aggregated
  embeddings is unchanged, that is, 0 is counted for it.
\<close>

theorem process_magang_no_embeddings:
  "process_magang astype_float32 now (f, total_wajah_diproses) magang_id magang_name []
     = Inr (f, total_wajah_diproses)"
  by (simp add: process_magang_def)

subsection \<open>The order of formatted dates\<close>

text \<open>The text of a date is smaller exactly if the date is earlier: digits are ordered as
  their values, zero-padded numbers of one width as their values, and strings of one
  length followed by more text first by themselves.\<close>

lemma char_of_digit:
  "char_of (48::nat) = CHR ''0''" "char_of (49::nat) = CHR ''1''" "char_of (50::nat) = CHR ''2''"
  "char_of (51::nat) = CHR ''3''" "char_of (52::nat) = CHR ''4''" "char_of (53::nat) = CHR ''5''"
  "char_of (54::nat) = CHR ''6''" "char_of (55::nat) = CHR ''7''" "char_of (56::nat) = CHR ''8''"
  "char_of (57::nat) = CHR ''9''"
  by (simp_all add: char_of_eq_iff)

lemma digit_char_less_iff: "digit_char a < digit_char b \<longleftrightarrow> a mod 10 < b mod 10"
proof -
  have "48 + a mod 10 < 256" "48 + b mod 10 < 256"
    by (simp_all add: less_trans [OF mod_less_divisor])
  then show ?thesis
    by (simp add: digit_char_def less_char_def take_bit_nat_eq_self_iff take_bit_eq_mod)
qed

lemma digit_char_eq_iff: "digit_char a = digit_char b \<longleftrightarrow> a mod 10 = b mod 10"
proof -
  have "48 + a mod 10 < 256" "48 + b mod 10 < 256"
    by (simp_all add: less_trans [OF mod_less_divisor])
  then show ?thesis
    by (simp add: digit_char_def char_of_eq_iff take_bit_eq_mod)
qed

lemma less_div_mod_iff:
  fixes a b n :: nat
  assumes "0 < n"
  shows "a < b \<longleftrightarrow> a div n < b div n \<or> (a div n = b div n \<and> a mod n < b mod n)"
proof -
  have a: "a = n * (a div n) + a mod n" and b: "b = n * (b div n) + b mod n"
    by simp_all
  show ?thesis
  proof (cases "a div n = b div n")
    case True
    then show ?thesis using a b by (metis nat_add_left_cancel_less less_irrefl)
  next
    case False
    show ?thesis
    proof (cases "a div n < b div n")
      case True
      then have "a < b" using assms
        by (metis div_le_mono leD leI)
      with True show ?thesis by simp
    next
      case gt: False
      with False have "b div n < a div n" by simp
      then have "b < a" using assms by (metis div_le_mono leD leI)
      with gt False show ?thesis by simp
    qed
  qed
qed

lemma eq_div_mod_iff:
  fixes a b n :: nat
  shows "a = b \<longleftrightarrow> a div n = b div n \<and> a mod n = b mod n"
  by (metis div_mult_mod_eq)

lemma zero_pad2_less_iff:
  assumes "a < 100" "b < 100"
  shows "zero_pad2 a < zero_pad2 b \<longleftrightarrow> a < b"
proof -
  have "a div 10 < 10" "b div 10 < 10" using assms by simp_all
  then have m: "a div 10 mod 10 = a div 10" "b div 10 mod 10 = b div 10" by simp_all
  show ?thesis
    unfolding zero_pad2_def
    by (simp add: digit_char_less_iff digit_char_eq_iff m less_div_mod_iff [of 10 a b])
qed

lemma zero_pad2_eq_iff:
  assumes "a < 100" "b < 100"
  shows "zero_pad2 a = zero_pad2 b \<longleftrightarrow> a = b"
proof -
  have "a div 10 < 10" "b div 10 < 10" using assms by simp_all
  then have m: "a div 10 mod 10 = a div 10" "b div 10 mod 10 = b div 10" by simp_all
  show ?thesis
    unfolding zero_pad2_def
    by (simp add: digit_char_eq_iff m eq_div_mod_iff [of a b 10])
qed

lemma zero_pad4_split:
  "zero_pad4 n = zero_pad2 (n div 100) @ zero_pad2 (n mod 100)"
proof -
  have 1: "n div 1000 = n div 100 div 10" by (simp add: div_mult2_eq)
  have "n mod 100 = 10 * (n div 10 mod 10) + n mod 10"
    using mod_mult2_eq [of n 10 10] by simp
  then have "n mod 100 div 10 = n div 10 mod 10" by simp
  then have 2: "n mod 100 div 10 mod 10 = n div 10 mod 10" by simp
  have 3: "n mod 100 mod 10 = n mod 10"
    by (simp add: mod_mod_cancel)
  show ?thesis
    by (simp add: zero_pad4_def zero_pad2_def 1 digit_char_eq_iff 2 3)
qed

lemma append_less_append_iff:
  fixes xs ys :: "'a::linorder list"
  shows "length xs = length ys \<Longrightarrow> xs @ us < ys @ vs \<longleftrightarrow> xs < ys \<or> (xs = ys \<and> us < vs)"
  by (induction xs ys rule: list_induct2) auto

lemma append_le_append_iff:
  fixes xs ys :: "'a::linorder list"
  shows "length xs = length ys \<Longrightarrow> xs @ us \<le> ys @ vs \<longleftrightarrow> xs < ys \<or> (xs = ys \<and> us \<le> vs)"
  by (induction xs ys rule: list_induct2) auto

lemma length_zero_pad2 [simp]: "length (zero_pad2 n) = 2"
  by (simp add: zero_pad2_def)

lemma length_zero_pad4 [simp]: "length (zero_pad4 n) = 4"
  by (simp add: zero_pad4_def)

lemma zero_pad4_less_iff:
  assumes "a < 10000" "b < 10000"
  shows "zero_pad4 a < zero_pad4 b \<longleftrightarrow> a < b"
proof -
  have "a div 100 < 100" "b div 100 < 100" "a mod 100 < 100" "b mod 100 < 100"
    using assms by simp_all
  then show ?thesis
    by (simp add: zero_pad4_split append_less_append_iff zero_pad2_less_iff zero_pad2_eq_iff
        less_div_mod_iff [of 100 a b])
qed

lemma zero_pad4_eq_iff:
  assumes "a < 10000" "b < 10000"
  shows "zero_pad4 a = zero_pad4 b \<longleftrightarrow> a = b"
proof -
  have "a div 100 < 100" "b div 100 < 100" "a mod 100 < 100" "b mod 100 < 100"
    using assms by simp_all
  then show ?thesis
    by (simp add: zero_pad4_split zero_pad2_eq_iff eq_div_mod_iff [of a b 100])
qed

lemma digit_char_ge_zero: "CHR ''0'' \<le> digit_char n"
proof -
  have "48 + n mod 10 < 256" by (simp add: less_trans [OF mod_less_divisor])
  then show ?thesis
    by (simp add: digit_char_def less_eq_char_def take_bit_nat_eq_self_iff take_bit_eq_mod)
qed

lemma midnight_le_time:
  "''00:00:00'' \<le> zero_pad2 h @ '':'' @ zero_pad2 m @ '':'' @ zero_pad2 s"
  using digit_char_ge_zero [of "h div 10"] digit_char_ge_zero [of h]
    digit_char_ge_zero [of "m div 10"] digit_char_ge_zero [of m]
    digit_char_ge_zero [of "s div 10"] digit_char_ge_zero [of s]
  by (auto simp: zero_pad2_def)

lemma length_strftime_Ymd [simp]: "length (strftime_Ymd d) = 10"
  by (simp add: strftime_Ymd_def)

lemma strftime_Ymd_less_iff:
  assumes "valid_date d" "valid_date t"
  shows "strftime_Ymd d < strftime_Ymd t \<longleftrightarrow>
     year d < year t
     \<or> (year d = year t \<and> (month d < month t \<or> (month d = month t \<and> day d < day t)))"
proof -
  have b: "year d < 10000" "year t < 10000" "month d < 100" "month t < 100"
    "day d < 100" "day t < 100"
    using assms by (simp_all add: valid_date_def)
  have "strftime_Ymd d < strftime_Ymd t \<longleftrightarrow>
     zero_pad4 (year d) < zero_pad4 (year t)
     \<or> (zero_pad4 (year d) = zero_pad4 (year t)
        \<and> (zero_pad2 (month d) < zero_pad2 (month t)
           \<or> (zero_pad2 (month d) = zero_pad2 (month t)
              \<and> zero_pad2 (day d) < zero_pad2 (day t))))"
    unfolding strftime_Ymd_def
    using append_less_append_iff [of "zero_pad2 (month d)" "zero_pad2 (month t)"
        "CHR ''-'' # zero_pad2 (day d)" "CHR ''-'' # zero_pad2 (day t)"]
    by (simp add: append_less_append_iff)
  then show ?thesis
    using b by (simp add: zero_pad4_less_iff zero_pad4_eq_iff zero_pad2_less_iff zero_pad2_eq_iff)
qed

lemma strftime_Ymd_eq_iff:
  assumes "valid_date d" "valid_date t"
  shows "strftime_Ymd d = strftime_Ymd t \<longleftrightarrow>
     year d = year t \<and> month d = month t \<and> day d = day t"
proof -
  have b: "year d < 10000" "year t < 10000" "month d < 100" "month t < 100"
    "day d < 100" "day t < 100"
    using assms by (simp_all add: valid_date_def)
  then show ?thesis
    by (simp add: strftime_Ymd_def zero_pad4_eq_iff zero_pad2_eq_iff)
qed

lemma strftime_day_start_le_iff:
  assumes "valid_date d" "valid_date t"
  shows "strftime_day_start d \<le> strftime_YmdHMS t \<longleftrightarrow> on_or_after t d"
proof -
  have tail: "'' 00:00:00'' \<le> '' '' @ zero_pad2 (hour t) @ '':'' @ zero_pad2 (minute t) @ '':''
       @ zero_pad2 (second t)"
    using midnight_le_time [of "hour t" "minute t" "second t"] by simp
  have "strftime_day_start d \<le> strftime_YmdHMS t \<longleftrightarrow>
      strftime_Ymd d < strftime_Ymd t \<or> strftime_Ymd d = strftime_Ymd t"
    unfolding strftime_day_start_def strftime_YmdHMS_def
    using tail by (simp only: append_le_append_iff length_strftime_Ymd simp_thms)
  then show ?thesis
    using assms by (auto simp: strftime_Ymd_less_iff strftime_Ymd_eq_iff on_or_after_def)
qed

subsection \<open>\<^verbatim>\<open>check_already_absen\<close>\<close>

text \<open>
  Claim C9. When the storage raises, either at the connection or at the query,
  \<^verbatim>\<open>check_already_absen\<close> returns \<^verbatim>\<open>False\<close>.
\<close>

theorem check_already_absen_storage_error:
  assumes "sqlite3_connect f = Inl e
     \<or> (\<exists>db. sqlite3_connect f = Inr db
          \<and> select_absensi_since db magang_id log_type (strftime_day_start today) = Inl e)"
  shows "check_already_absen today f magang_id log_type = False"
  using assms by (auto simp: check_already_absen_def)

theorem check_already_absen_storage_error_witness:
  "sqlite3_connect None = Inl (sqlite3_Error ''unable to open database file'')
   \<and> check_already_absen example_today None ''A001'' ''MASUK'' = False"
proof -
  have h: "sqlite3_connect None = Inl (sqlite3_Error ''unable to open database file'')"
    by (simp add: sqlite3_connect_def)
  show ?thesis
    using h check_already_absen_storage_error
      [of None _ "''A001''" "''MASUK''" example_today, OF disjI1, OF h]
    by simp
qed

text \<open>The other way to fail: the table \<^verbatim>\<open>absensi\<close> has not been created.\<close>

lemma check_already_absen_no_table:
  "select_absensi_since (the no_tables) ''A001'' ''MASUK'' (strftime_day_start example_today)
     = Inl (sqlite3_Error ''no such table: absensi'')
   \<and> check_already_absen example_today no_tables ''A001'' ''MASUK'' = False"
  by (simp add: check_already_absen_def select_absensi_since_def sqlite3_connect_def
      no_tables_def)

text \<open>
  Claim C7. When the query succeeds, \<^verbatim>\<open>check_already_absen\<close> is true exactly if the
  table \<^verbatim>\<open>absensi\<close> has a row of that \<^verbatim>\<open>magang_id\<close> and that type whose timestamp is
  at or after the start of today, \<^verbatim>\<open>'YYYY-MM-DD 00:00:00'\<close> included. The timestamps
  are text and are compared as text; where they are times written as
  \<^verbatim>\<open>'%Y-%m-%d %H:%M:%S'\<close>, this is the order of the calendar: the row is of today or of a
  later day.
\<close>

theorem check_already_absen_iff:
  assumes "sqlite3_connect f = Inr db" and "absensi_table db = Some rows"
  shows "(check_already_absen today f magang_id log_type
           \<longleftrightarrow> (\<exists>r\<in>set rows. absensi_magang_id r = magang_id \<and> absensi_type r = log_type
                  \<and> strftime_day_start today \<le> absensi_timestamp r))
     \<and> (valid_date today
          \<and> (\<forall>r\<in>set rows. valid_date (stamp r)
                \<and> absensi_timestamp r = strftime_YmdHMS (stamp r))
         \<longrightarrow> (check_already_absen today f magang_id log_type
                \<longleftrightarrow> (\<exists>r\<in>set rows. absensi_magang_id r = magang_id
                       \<and> absensi_type r = log_type \<and> on_or_after (stamp r) today)))"
proof -
  let ?P = "\<lambda>r. absensi_magang_id r = magang_id \<and> absensi_type r = log_type
                \<and> strftime_day_start today \<le> absensi_timestamp r"
  have "check_already_absen today f magang_id log_type \<longleftrightarrow> take 1 (filter ?P rows) \<noteq> []"
    using assms by (simp add: check_already_absen_def select_absensi_since_def)
  also have "\<dots> \<longleftrightarrow> filter ?P rows \<noteq> []"
    by (cases "filter ?P rows") simp_all
  also have "\<dots> \<longleftrightarrow> (\<exists>r\<in>set rows. ?P r)"
    by (auto simp: filter_empty_conv)
  finally have lexical: "check_already_absen today f magang_id log_type \<longleftrightarrow> (\<exists>r\<in>set rows. ?P r)" .
  have calendar: "(\<exists>r\<in>set rows. ?P r)
      \<longleftrightarrow> (\<exists>r\<in>set rows. absensi_magang_id r = magang_id
                       \<and> absensi_type r = log_type \<and> on_or_after (stamp r) today)"
    if "valid_date today"
      and "\<forall>r\<in>set rows. valid_date (stamp r) \<and> absensi_timestamp r = strftime_YmdHMS (stamp r)"
  proof -
    have "strftime_day_start today \<le> absensi_timestamp r \<longleftrightarrow> on_or_after (stamp r) today"
      if "r \<in> set rows" for r
      using that \<open>valid_date today\<close>
        \<open>\<forall>r\<in>set rows. valid_date (stamp r) \<and> absensi_timestamp r = strftime_YmdHMS (stamp r)\<close>
      by (simp add: strftime_day_start_le_iff)
    then show ?thesis by blast
  qed
  show ?thesis
    using lexical calendar by blast
qed

theorem check_already_absen_iff_witness:
  "sqlite3_connect example_ledger = Inr (the example_ledger)
   \<and> absensi_table (the example_ledger) = Some (the (absensi_table (the example_ledger)))
   \<and> valid_date example_today
   \<and> list_all (\<lambda>r. valid_date (example_stamp r)
                   \<and> absensi_timestamp r = strftime_YmdHMS (example_stamp r))
        (the (absensi_table (the example_ledger)))
   \<and> check_already_absen example_today example_ledger ''A001'' ''MASUK''
   \<and> (\<exists>r\<in>set (the (absensi_table (the example_ledger))).
         absensi_magang_id r = ''A001'' \<and> absensi_type r = ''MASUK''
         \<and> strftime_day_start example_today \<le> absensi_timestamp r)
   \<and> (\<exists>r\<in>set (the (absensi_table (the example_ledger))).
         absensi_magang_id r = ''A001'' \<and> absensi_type r = ''MASUK''
         \<and> on_or_after (example_stamp r) example_today)"
proof -
  have h1: "sqlite3_connect example_ledger = Inr (the example_ledger)"
    by (simp add: sqlite3_connect_def example_ledger_def)
  have h2: "absensi_table (the example_ledger) = Some (the (absensi_table (the example_ledger)))"
    by (simp add: example_ledger_def)
  have h3: "valid_date example_today"
    by (simp add: valid_date_def example_today_def)
  have h4: "list_all (\<lambda>r. valid_date (example_stamp r)
                   \<and> absensi_timestamp r = strftime_YmdHMS (example_stamp r))
        (the (absensi_table (the example_ledger)))"
    by (simp add: example_ledger_def example_stamp_def valid_date_def strftime_YmdHMS_def
        strftime_Ymd_def zero_pad2_def zero_pad4_def digit_char_def char_of_digit)
  have ex: "\<exists>r\<in>set (the (absensi_table (the example_ledger))).
         absensi_magang_id r = ''A001'' \<and> absensi_type r = ''MASUK''
         \<and> on_or_after (example_stamp r) example_today"
    by (simp add: example_ledger_def example_stamp_def example_today_def on_or_after_def)
  show ?thesis
    using h1 h2 h3 h4 ex
      check_already_absen_iff [OF h1 h2, of example_today "''A001''" "''MASUK''" example_stamp]
    by (simp only: list_all_iff) blast
qed

text \<open>The same ledger read for another type, and read a day later: nothing is found.\<close>

lemma check_already_absen_other_examples:
  "\<not> check_already_absen example_today example_ledger ''A001'' ''KELUAR''
   \<and> \<not> check_already_absen \<lparr>year = 2026, month = 11, day = 5\<rparr> example_ledger ''A001'' ''MASUK''"
  by (simp add: check_already_absen_def select_absensi_since_def sqlite3_connect_def
      example_ledger_def strftime_day_start_def strftime_Ymd_def
      zero_pad2_def zero_pad4_def digit_char_def char_of_eq_iff less_char_def)

subsection \<open>The bytes of a \<^verbatim>\<open>float32\<close> array\<close>

lemma float32_roundtrip:
  "float32_frombytes (ucast w) (ucast (drop_bit 8 w)) (ucast (drop_bit 16 w))
     (ucast (drop_bit 24 w)) = (w::float32)"
proof (rule bit_eqI)
  fix n
  assume "possible_bit TYPE(float32) n"
  then have n: "n < 32" by (simp add: possible_bit_word)
  consider "n < 8" | "8 \<le> n" "n < 16" | "16 \<le> n" "n < 24" | "24 \<le> n"
    by linarith
  then show "bit (float32_frombytes (ucast w) (ucast (drop_bit 8 w)) (ucast (drop_bit 16 w))
                (ucast (drop_bit 24 w))) n = bit w n"
  proof cases
    case 1
    then show ?thesis by (simp add: float32_frombytes_def bit_simps)
  next
    case 2
    then show ?thesis using n by (auto simp: float32_frombytes_def bit_simps)
  next
    case 3
    then show ?thesis using n by (auto simp: float32_frombytes_def bit_simps)
  next
    case 4
    then show ?thesis using n by (auto simp: float32_frombytes_def bit_simps)
  qed
qed

lemma np_frombuffer_tobytes: "np_frombuffer (tobytes ws) = Inr ws"
  by (induction ws) (simp_all add: tobytes_def float32_tobytes_def float32_roundtrip)

lemma length_tobytes: "length (tobytes ws) = 4 * length ws"
  by (induction ws) (simp_all add: tobytes_def float32_tobytes_def)

lemma np_frombuffer_total: "4 dvd length bs \<Longrightarrow> \<exists>ws. np_frombuffer bs = Inr ws"
proof (induction bs rule: np_frombuffer.induct)
  case 1
  then show ?case by simp
next
  case (2 b0 b1 b2 b3 bs)
  have "length (b0 # b1 # b2 # b3 # bs) = length bs + 4" by simp
  with "2.prems" have "4 dvd length bs + 4" by (simp only:)
  then have "4 dvd length bs" by (simp only: dvd_add_triv_right_iff)
  with "2.IH" obtain ws where "np_frombuffer bs = Inr ws" by blast
  then show ?case by simp
qed (auto dest!: dvd_imp_le)

subsection \<open>The table \<^verbatim>\<open>magang\<close> under the operations of the store\<close>

lemma insert_or_replace_distinct:
  "distinct (map row_id rows) \<Longrightarrow> distinct (map row_id (insert_or_replace r rows))"
  by (auto simp: insert_or_replace_def distinct_map_filter)

lemma insert_or_replace_same:
  "filter (\<lambda>x. row_id x = row_id r) (insert_or_replace r rows) = [r]"
  by (simp add: insert_or_replace_def)

lemma insert_or_replace_others:
  "filter (\<lambda>x. row_id x \<noteq> row_id r) (insert_or_replace r rows)
     = filter (\<lambda>x. row_id x \<noteq> row_id r) rows"
  by (simp add: insert_or_replace_def)

lemma length_filter_other_ids:
  "distinct (map row_id rows) \<Longrightarrow> k \<in> row_id ` set rows
     \<Longrightarrow> Suc (length (filter (\<lambda>x. row_id x \<noteq> k) rows)) = length rows"
proof (induction rows)
  case Nil
  then show ?case by simp
next
  case (Cons a rows)
  show ?case
  proof (cases "row_id a = k")
    case True
    then have "k \<notin> row_id ` set rows" using Cons.prems(1) by auto
    then have "filter (\<lambda>x. row_id x \<noteq> k) rows = rows"
      by (auto simp: filter_id_conv)
    then show ?thesis using True by simp
  next
    case False
    then show ?thesis using Cons by auto
  qed
qed

lemma insert_or_replace_length:
  "distinct (map row_id rows) \<Longrightarrow> row_id r \<in> row_id ` set rows
     \<Longrightarrow> length (insert_or_replace r rows) = length rows"
  using length_filter_other_ids [of rows "row_id r"] by (simp add: insert_or_replace_def)

lemma magang_rows_create [simp]: "magang_rows (create_initial_tables f) = magang_rows f"
  by (simp add: magang_rows_def create_initial_tables_def sqlite3_connect_def
      split: option.splits)

lemma magang_rows_clear: "magang_rows (clear_magang_table f) = []"
  by (simp add: magang_rows_def clear_magang_table_def sqlite3_connect_def
      split: option.splits)

lemma magang_rows_update_absensi_log [simp]:
  "magang_rows (update_absensi_log f magang_id magang_name log_time log_type) = magang_rows f"
  by (simp add: magang_rows_def update_absensi_log_def sqlite3_connect_def
      split: option.splits)

lemma save_new_magang_failure:
  "\<not> fst (fst (save_new_magang astype now f magang_id magang_name emb))
     \<Longrightarrow> snd (save_new_magang astype now f magang_id magang_name emb) = f"
  by (simp add: save_new_magang_def execute_insert_or_replace_def sqlite3_connect_def Let_def
      split: option.splits)

lemma save_new_magang_success:
  "fst (fst (save_new_magang astype now f magang_id magang_name emb))
     \<Longrightarrow> magang_rows (snd (save_new_magang astype now f magang_id magang_name emb))
         = insert_or_replace
             \<lparr>row_id = magang_id, row_nama = magang_name,
              row_master_embedding = tobytes (map astype emb),
              row_last_updated = strftime_YmdHMS now\<rparr> (magang_rows f)"
  by (simp add: save_new_magang_def execute_insert_or_replace_def sqlite3_connect_def Let_def
      magang_rows_def split: option.splits)

lemma save_new_magang_succeeds_iff:
  "fst (fst (save_new_magang astype now f magang_id magang_name emb))
     \<longleftrightarrow> (\<exists>db rows. f = Some db \<and> magang_table db = Some rows)"
  by (simp add: save_new_magang_def execute_insert_or_replace_def sqlite3_connect_def Let_def
      split: option.splits)

text \<open>
  Claim C8. Every operation on the database file keeps at most one row for each id in the
  table \<^verbatim>\<open>magang\<close>. When \<^verbatim>\<open>save_new_magang\<close> succeeds, the table has exactly one row of
  the given id, with the given name, the bytes of the given embedding and the time of the
  call as \<^verbatim>\<open>last_updated\<close>; the rows of the other ids are as before; and where the id
  was present already the number of rows is unchanged: the row is replaced, not added.
\<close>

theorem one_record_per_id_preserved:
  assumes "one_record_per_id f"
  shows "one_record_per_id (create_initial_tables f)
     \<and> one_record_per_id (clear_magang_table f)
     \<and> one_record_per_id (update_absensi_log f log_magang_id log_name log_time log_type)
     \<and> one_record_per_id (snd (save_new_magang astype now f magang_id magang_name emb))
     \<and> (fst (fst (save_new_magang astype now f magang_id magang_name emb)) \<longrightarrow>
          filter (\<lambda>r. row_id r = magang_id)
              (magang_rows (snd (save_new_magang astype now f magang_id magang_name emb)))
            = [\<lparr>row_id = magang_id, row_nama = magang_name,
                row_master_embedding = tobytes (map astype emb),
                row_last_updated = strftime_YmdHMS now\<rparr>]
          \<and> filter (\<lambda>r. row_id r \<noteq> magang_id)
              (magang_rows (snd (save_new_magang astype now f magang_id magang_name emb)))
            = filter (\<lambda>r. row_id r \<noteq> magang_id) (magang_rows f)
          \<and> (magang_id \<in> row_id ` set (magang_rows f) \<longrightarrow>
               length (magang_rows (snd (save_new_magang astype now f magang_id magang_name emb)))
                 = length (magang_rows f)))"
proof -
  let ?res = "save_new_magang astype now f magang_id magang_name emb"
  let ?r = "\<lparr>row_id = magang_id, row_nama = magang_name,
             row_master_embedding = tobytes (map astype emb),
             row_last_updated = strftime_YmdHMS now\<rparr>"
  have d: "distinct (map row_id (magang_rows f))"
    using assms by (simp add: one_record_per_id_def)
  have c1: "one_record_per_id (create_initial_tables f)"
    using d by (simp add: one_record_per_id_def)
  have c2: "one_record_per_id (clear_magang_table f)"
    by (simp add: one_record_per_id_def magang_rows_clear)
  have c3: "one_record_per_id (update_absensi_log f log_magang_id log_name log_time log_type)"
    using d by (simp add: one_record_per_id_def)
  have c4: "one_record_per_id (snd ?res)"
  proof (cases "fst (fst ?res)")
    case True
    then show ?thesis
      using d by (simp add: one_record_per_id_def save_new_magang_success
          insert_or_replace_distinct)
  next
    case False
    then show ?thesis using assms by (simp add: save_new_magang_failure)
  qed
  have c5: "filter (\<lambda>r. row_id r = magang_id) (magang_rows (snd ?res)) = [?r]"
    if "fst (fst ?res)"
    using that insert_or_replace_same [of ?r "magang_rows f"]
    by (simp add: save_new_magang_success)
  have c6: "filter (\<lambda>r. row_id r \<noteq> magang_id) (magang_rows (snd ?res))
              = filter (\<lambda>r. row_id r \<noteq> magang_id) (magang_rows f)"
    if "fst (fst ?res)"
    using that insert_or_replace_others [of ?r "magang_rows f"]
    by (simp add: save_new_magang_success)
  have c7: "length (magang_rows (snd ?res)) = length (magang_rows f)"
    if "fst (fst ?res)" and "magang_id \<in> row_id ` set (magang_rows f)"
    using that d insert_or_replace_length [of "magang_rows f" ?r]
    by (simp add: save_new_magang_success)
  show ?thesis
    using c1 c2 c3 c4 c5 c6 c7 by blast
qed

theorem one_record_per_id_preserved_witness:
  "one_record_per_id example_store
   \<and> fst (fst (save_new_magang (\<lambda>w. w) example_now example_store ''A001'' ''Ana Maria'' [5, 6]))
   \<and> ''A001'' \<in> row_id ` set (magang_rows example_store)
   \<and> one_record_per_id
        (snd (save_new_magang (\<lambda>w. w) example_now example_store ''A001'' ''Ana Maria'' [5, 6]))
   \<and> filter (\<lambda>r. row_id r = ''A001'')
        (magang_rows (snd (save_new_magang (\<lambda>w. w) example_now example_store
                             ''A001'' ''Ana Maria'' [5, 6])))
       = [\<lparr>row_id = ''A001'', row_nama = ''Ana Maria'',
           row_master_embedding = tobytes [5, 6],
           row_last_updated = ''2026-11-04 09:05:00''\<rparr>]
   \<and> length (magang_rows (snd (save_new_magang (\<lambda>w. w) example_now example_store
                             ''A001'' ''Ana Maria'' [5, 6]))) = 2"
proof -
  have h: "one_record_per_id example_store"
    by (simp add: one_record_per_id_def magang_rows_def example_store_def example_rows_def)
  have ok: "fst (fst (save_new_magang (\<lambda>w. w) example_now example_store
                        ''A001'' ''Ana Maria'' [5, 6]))"
    by (simp add: save_new_magang_def execute_insert_or_replace_def sqlite3_connect_def
        example_store_def example_rows_def)
  have present: "''A001'' \<in> row_id ` set (magang_rows example_store)"
    by (simp add: magang_rows_def example_store_def example_rows_def)
  have len: "length (magang_rows example_store) = 2"
    by (simp add: magang_rows_def example_store_def example_rows_def)
  have time: "strftime_YmdHMS example_now = ''2026-11-04 09:05:00''"
    by (simp add: example_now_def strftime_YmdHMS_def strftime_Ymd_def zero_pad2_def
        zero_pad4_def digit_char_def char_of_eq_iff)
  show ?thesis
    using h ok present len time
      one_record_per_id_preserved [OF h, of _ _ _ _ "\<lambda>w. w" example_now "''A001''"
        "''Ana Maria''" "[5, 6]"]
    by simp
qed

subsection \<open>Saving, then loading\<close>

lemma load_rows_append:
  "load_rows (xs @ [r]) =
     (case load_rows xs of
        Inl e \<Rightarrow> Inl e
      | Inr l \<Rightarrow>
          (case np_frombuffer (row_master_embedding r) of
             Inl e \<Rightarrow> Inl e
           | Inr a \<Rightarrow> Inr (l @ [\<lparr>m_id = row_id r, m_name = row_nama r, m_embedding = a\<rparr>])))"
  by (induction xs) (auto split: sum.splits)

lemma load_rows_ids: "load_rows xs = Inr l \<Longrightarrow> map m_id l = map row_id xs"
  by (induction xs arbitrary: l) (auto split: sum.splits)

lemma load_rows_total:
  "\<forall>r\<in>set xs. 4 dvd length (row_master_embedding r) \<Longrightarrow> \<exists>l. load_rows xs = Inr l"
proof (induction xs)
  case Nil
  then show ?case by simp
next
  case (Cons r xs)
  then obtain l where l: "load_rows xs = Inr l" by auto
  from Cons.prems obtain a where "np_frombuffer (row_master_embedding r) = Inr a"
    using np_frombuffer_total [of "row_master_embedding r"] by auto
  with l show ?case by simp
qed

text \<open>
  Claim C10. On a database whose table \<^verbatim>\<open>magang\<close> exists and whose other rows hold
  buffers that \<^verbatim>\<open>np.frombuffer\<close> accepts, \<^verbatim>\<open>save_new_magang\<close> succeeds,
  \<^verbatim>\<open>load_all_magang_embeddings\<close> then returns, and the one entry it returns for the id
  has the saved name and, as its embedding, the saved array cast to \<^verbatim>\<open>float32\<close>: the
  bytes are read back as they were written. For an array that is \<^verbatim>\<open>float32\<close> already
  the cast is the identity and the array is returned as it was saved.
\<close>

theorem save_then_load_roundtrip:
  assumes "sqlite3_connect f = Inr db" and "magang_table db = Some rows"
    and "\<forall>r\<in>set rows. row_id r \<noteq> magang_id \<longrightarrow> 4 dvd length (row_master_embedding r)"
  shows "\<exists>msg f' loaded.
     save_new_magang astype now f magang_id magang_name emb = ((True, msg), f')
     \<and> load_all_magang_embeddings f' = Inr loaded
     \<and> filter (\<lambda>m. m_id m = magang_id) loaded
         = [\<lparr>m_id = magang_id, m_name = magang_name, m_embedding = map astype emb\<rparr>]"
proof -
  let ?r = "\<lparr>row_id = magang_id, row_nama = magang_name,
             row_master_embedding = tobytes (map astype emb),
             row_last_updated = strftime_YmdHMS now\<rparr>"
  let ?others = "filter (\<lambda>x. row_id x \<noteq> magang_id) rows"
  let ?f' = "Some (db\<lparr>magang_table := Some (?others @ [?r])\<rparr>)"
  let ?msg = "''Data Magang '' @ [CHR 0x27] @ magang_name @ [CHR 0x27]
                @ '' berhasil disimpan/diperbarui.''"
  have save: "save_new_magang astype now f magang_id magang_name emb = ((True, ?msg), ?f')"
    using assms(1,2)
    by (simp add: save_new_magang_def execute_insert_or_replace_def insert_or_replace_def)
  have "\<forall>r\<in>set ?others. 4 dvd length (row_master_embedding r)"
    using assms(3) by simp
  then obtain l where l: "load_rows ?others = Inr l"
    using load_rows_total by blast
  have ids: "map m_id l = map row_id ?others"
    using l by (rule load_rows_ids)
  have "\<forall>m\<in>set l. m_id m \<noteq> magang_id"
  proof
    fix m assume "m \<in> set l"
    then have "m_id m \<in> set (map m_id l)" by simp
    then have "m_id m \<in> set (map row_id ?others)" by (simp only: ids)
    then show "m_id m \<noteq> magang_id" by auto
  qed
  then have none: "filter (\<lambda>m. m_id m = magang_id) l = []"
    by (simp add: filter_empty_conv)
  let ?loaded = "l @ [\<lparr>m_id = magang_id, m_name = magang_name, m_embedding = map astype emb\<rparr>]"
  have load: "load_all_magang_embeddings ?f' = Inr ?loaded"
    by (simp add: load_all_magang_embeddings_def sqlite3_connect_def load_rows_append l
        np_frombuffer_tobytes)
  have "filter (\<lambda>m. m_id m = magang_id) ?loaded
         = [\<lparr>m_id = magang_id, m_name = magang_name, m_embedding = map astype emb\<rparr>]"
    using none by simp
  with save load show ?thesis by blast
qed

theorem save_then_load_roundtrip_witness:
  "sqlite3_connect example_store = Inr \<lparr>magang_table = Some example_rows, absensi_table = Some []\<rparr>
   \<and> magang_table \<lparr>magang_table = Some example_rows, absensi_table = Some []\<rparr> = Some example_rows
   \<and> list_all (\<lambda>r. row_id r = ''A001'' \<or> 4 dvd length (row_master_embedding r)) example_rows
   \<and> (\<exists>msg f' loaded.
     save_new_magang (\<lambda>w. w) example_now example_store ''A001'' ''Ana Maria'' [5, 6]
        = ((True, msg), f')
     \<and> load_all_magang_embeddings f' = Inr loaded
     \<and> filter (\<lambda>m. m_id m = ''A001'') loaded
         = [\<lparr>m_id = ''A001'', m_name = ''Ana Maria'', m_embedding = [5, 6]\<rparr>])"
proof -
  let ?db = "\<lparr>magang_table = Some example_rows, absensi_table = Some []\<rparr>"
  have h1: "sqlite3_connect example_store = Inr ?db"
    by (simp add: sqlite3_connect_def example_store_def)
  have h2: "magang_table ?db = Some example_rows"
    by simp
  have h3: "\<forall>r\<in>set example_rows. row_id r \<noteq> ''A001'' \<longrightarrow> 4 dvd length (row_master_embedding r)"
    by (simp add: example_rows_def length_tobytes)
  have h3': "list_all (\<lambda>r. row_id r = ''A001'' \<or> 4 dvd length (row_master_embedding r))
               example_rows"
    by (simp add: example_rows_def length_tobytes)
  show ?thesis
    using h1 h3'
      save_then_load_roundtrip [OF h1 h2 h3, of "\<lambda>w. w" example_now "''Ana Maria''" "[5, 6]"]
    by simp
qed

subsection \<open>The mean of the training embeddings\<close>

lemma length_foldl_map2_fadd:
  "\<forall>x\<in>set es. length x = length e \<Longrightarrow> length (foldl (map2 fadd) e es) = length e"
  by (induction es arbitrary: e) simp_all

lemma nth_foldl_map2_fadd:
  "\<forall>x\<in>set es. length x = length e \<Longrightarrow> j < length e
     \<Longrightarrow> foldl (map2 fadd) e es ! j = foldl fadd (e ! j) (map (\<lambda>x. x ! j) es)"
  by (induction es arbitrary: e) simp_all

lemma foldl_fadd_exact:
  assumes "\<forall>n. 0 < n \<and> n \<le> length xs \<longrightarrow>
             round_float32 (a + sum_list (take n xs)) = Finite (a + sum_list (take n xs))"
  shows "foldl fadd (Finite a) (map Finite xs) = Finite (a + sum_list xs)"
  using assms
proof (induction xs arbitrary: a)
  case Nil
  then show ?case by simp
next
  case (Cons x xs)
  have "round_float32 (a + sum_list (take 1 (x # xs))) = Finite (a + sum_list (take 1 (x # xs)))"
    using Cons.prems by (intro Cons.prems [rule_format]) simp
  then have first: "round_float32 (a + x) = Finite (a + x)" by simp
  have rest: "\<forall>n. 0 < n \<and> n \<le> length xs \<longrightarrow>
      round_float32 (a + x + sum_list (take n xs)) = Finite (a + x + sum_list (take n xs))"
  proof (intro allI impI)
    fix n assume n: "0 < n \<and> n \<le> length xs"
    then have "0 < Suc n \<and> Suc n \<le> length (x # xs)" by simp
    from Cons.prems [rule_format, OF this]
    show "round_float32 (a + x + sum_list (take n xs)) = Finite (a + x + sum_list (take n xs))"
      by (simp add: add.assoc)
  qed
  show ?case
    using Cons.IH [OF rest] first by (simp add: add.assoc)
qed

lemma float32_column_mean_exact:
  assumes "no_rounding (c # cs)"
  shows "fdiv (foldl fadd (Finite c) (map Finite cs)) (round_float32 (real (length (c # cs))))
           = Finite (sum_list (c # cs) / real (length (c # cs)))"
proof -
  have sums: "\<forall>n. 0 < n \<and> n \<le> length cs \<longrightarrow>
             round_float32 (c + sum_list (take n cs)) = Finite (c + sum_list (take n cs))"
  proof (intro allI impI)
    fix n assume "0 < n \<and> n \<le> length cs"
    then have "0 < Suc n \<and> Suc n \<le> length (c # cs)" by simp
    with assms have "round_float32 (sum_list (take (Suc n) (c # cs)))
                       = Finite (sum_list (take (Suc n) (c # cs)))"
      unfolding no_rounding_def by blast
    then show "round_float32 (c + sum_list (take n cs)) = Finite (c + sum_list (take n cs))"
      by simp
  qed
  have acc: "foldl fadd (Finite c) (map Finite cs) = Finite (c + sum_list cs)"
    using sums by (rule foldl_fadd_exact)
  have n: "round_float32 (real (length (c # cs))) = Finite (real (length (c # cs)))"
    and q: "round_float32 (sum_list (c # cs) / real (length (c # cs)))
              = Finite (sum_list (c # cs) / real (length (c # cs)))"
    using assms by (simp_all add: no_rounding_def)
  show ?thesis
    using q by (simp only: acc n) simp
qed

lemma np_mean_axis0_value:
  assumes "\<forall>x\<in>set (e # es). length x = D"
  shows "\<exists>avg. np_mean_axis0 e es = Inr avg \<and> length avg = D
     \<and> (\<forall>j<D. avg ! j = fdiv (foldl fadd (e ! j) (map (\<lambda>x. x ! j) es))
                            (round_float32 (real (length (e # es)))))"
proof -
  let ?n = "round_float32 (real (length (e # es)))"
  let ?avg = "map (\<lambda>s. fdiv s ?n) (foldl (map2 fadd) e es)"
  have len: "length e = D" and same: "\<forall>x\<in>set es. length x = length e"
    using assms by simp_all
  then have "\<not> (\<exists>x\<in>set es. length x \<noteq> length e)" by simp
  then have run: "np_mean_axis0 e es = Inr ?avg"
    by (simp only: np_mean_axis0_def if_False)
  have l: "length ?avg = D"
    using same len by (simp add: length_foldl_map2_fadd)
  have v: "?avg ! j = fdiv (foldl fadd (e ! j) (map (\<lambda>x. x ! j) es)) ?n" if "j < D" for j
    using that same len by (simp add: length_foldl_map2_fadd nth_foldl_map2_fadd)
  show ?thesis
    using run l v by blast
qed

lemma float32_column_of_reals:
  assumes "e # es = map (map Finite) xs" and "\<forall>x\<in>set (e # es). length x = D" and "j < D"
  shows "\<exists>c cs. map (\<lambda>x. x ! j) xs = c # cs \<and> e ! j = Finite c
           \<and> map (\<lambda>x. x ! j) es = map Finite cs \<and> length xs = length (e # es)"
proof -
  from assms(1) obtain x0 xr where xs: "xs = x0 # xr" and e: "e = map Finite x0"
    and es: "es = map (map Finite) xr"
    by (cases xs) auto
  have l0: "length x0 = D" using assms(2) e by simp
  have lr: "\<forall>x\<in>set xr. length x = D" using assms(2) es by simp
  have "e ! j = Finite (x0 ! j)" using e l0 assms(3) by simp
  moreover have "map (\<lambda>x. x ! j) es = map Finite (map (\<lambda>x. x ! j) xr)"
    using es lr assms(3) by simp
  ultimately show ?thesis using xs es by simp
qed

text \<open>
  Claim C5, as the code has it. For an identity with a non-empty list of \<open>N\<close> embeddings
  of one dimension \<open>D\<close>, and a database whose table \<^verbatim>\<open>magang\<close> exists, the loop body
  counts \<open>N\<close> embeddings and leaves exactly one row of the identity, whose stored array is
  the cast of the \<^verbatim>\<open>float32\<close> mean \<open>avg\<close> of length \<open>D\<close>: coordinate \<open>j\<close> is the sum of
  the \<open>j\<close>-th coordinates in the order of the list, rounded to \<^verbatim>\<open>float32\<close> after every
  addition, divided by \<open>N\<close> and rounded. Where no step rounds, it is the coordinate-wise
  mean \<open>(\<Sum>i<N. embeddings ! i ! j) / N\<close> itself.
\<close>

theorem process_magang_stores_float32_mean:
  assumes "sqlite3_connect f = Inr db" and "magang_table db = Some rows"
    and "embeddings \<noteq> []" and "\<forall>e\<in>set embeddings. length e = D"
  shows "\<exists>f' avg.
     process_magang astype now (f, total_wajah_diproses) magang_id magang_name embeddings
       = Inr (f', total_wajah_diproses + length embeddings)
     \<and> length avg = D
     \<and> (\<forall>j<D. avg ! j = fdiv (foldl fadd (hd embeddings ! j) (map (\<lambda>e. e ! j) (tl embeddings)))
                            (round_float32 (real (length embeddings))))
     \<and> (\<forall>xs. embeddings = map (map Finite) xs \<longrightarrow>
          (\<forall>j<D. no_rounding (map (\<lambda>x. x ! j) xs) \<longrightarrow>
             avg ! j = Finite (sum_list (map (\<lambda>x. x ! j) xs) / real (length xs))))
     \<and> (\<exists>row. filter (\<lambda>r. row_id r = magang_id) (magang_rows f') = [row]
          \<and> row_nama row = magang_name
          \<and> np_frombuffer (row_master_embedding row) = Inr (map astype avg))"
proof -
  from assms(3) obtain e es where ees: "embeddings = e # es" by (cases embeddings) auto
  have dims: "\<forall>x\<in>set (e # es). length x = D" using assms(4) ees by simp
  from np_mean_axis0_value [OF dims]
  obtain avg where avg: "np_mean_axis0 e es = Inr avg" "length avg = D"
    and val: "\<forall>j<D. avg ! j = fdiv (foldl fadd (e ! j) (map (\<lambda>x. x ! j) es))
                            (round_float32 (real (length (e # es))))"
    by blast
  have val': "\<forall>j<D. avg ! j = fdiv (foldl fadd (hd embeddings ! j) (map (\<lambda>e. e ! j) (tl embeddings)))
                            (round_float32 (real (length embeddings)))"
    using val ees by simp
  have exact: "avg ! j = Finite (sum_list (map (\<lambda>x. x ! j) xs) / real (length xs))"
    if xs: "embeddings = map (map Finite) xs" and j: "j < D"
      and nr: "no_rounding (map (\<lambda>x. x ! j) xs)" for xs j
  proof -
    from float32_column_of_reals [OF _ dims j, of xs] xs ees
    obtain c cs where col: "map (\<lambda>x. x ! j) xs = c # cs" and ej: "e ! j = Finite c"
      and esj: "map (\<lambda>x. x ! j) es = map Finite cs" and len: "length xs = length (e # es)"
      by auto
    have lcol: "length (c # cs) = length (e # es)"
      using col len by (metis length_map)
    have "avg ! j = fdiv (foldl fadd (Finite c) (map Finite cs))
                      (round_float32 (real (length (c # cs))))"
      using val j ej esj lcol by simp
    also have "\<dots> = Finite (sum_list (c # cs) / real (length (c # cs)))"
      using nr col by (simp only: float32_column_mean_exact)
    finally show ?thesis using col lcol len by simp
  qed
  let ?res = "save_new_magang astype now f magang_id magang_name avg"
  let ?row = "\<lparr>row_id = magang_id, row_nama = magang_name,
             row_master_embedding = tobytes (map astype avg),
             row_last_updated = strftime_YmdHMS now\<rparr>"
  have ok: "fst (fst ?res)"
    using assms(1,2) by (simp add: save_new_magang_def execute_insert_or_replace_def)
  have run: "process_magang astype now (f, total_wajah_diproses) magang_id magang_name embeddings
       = Inr (snd ?res, total_wajah_diproses + length embeddings)"
    using ees avg(1) by (simp add: process_magang_def)
  have stored: "filter (\<lambda>r. row_id r = magang_id) (magang_rows (snd ?res)) = [?row]"
    using ok insert_or_replace_same [of ?row "magang_rows f"]
    by (simp add: save_new_magang_success)
  have "\<exists>row. filter (\<lambda>r. row_id r = magang_id) (magang_rows (snd ?res)) = [row]
          \<and> row_nama row = magang_name
          \<and> np_frombuffer (row_master_embedding row) = Inr (map astype avg)"
    using stored by (intro exI [of _ ?row]) (simp add: np_frombuffer_tobytes)
  with run avg(2) val' exact show ?thesis by blast
qed

lemma no_rounding_pair:
  assumes "round_float32 a = Finite a" and "round_float32 (a + b) = Finite (a + b)"
    and "round_float32 2 = Finite 2" and "round_float32 ((a + b) / 2) = Finite ((a + b) / 2)"
  shows "no_rounding [a, b]"
  unfolding no_rounding_def
proof (intro conjI allI impI)
  fix n :: nat
  assume "0 < n \<and> n \<le> length [a, b]"
  then have "n = 1 \<or> n = 2" by auto
  then show "round_float32 (sum_list (take n [a, b])) = Finite (sum_list (take n [a, b]))"
    using assms(1,2) by (auto simp: numeral_2_eq_2)
qed (use assms(3,4) in simp_all)

lemma no_rounding_example: "no_rounding [1, 3]" "no_rounding [3, 5]"
  by (rule no_rounding_pair; simp add: round_float32_small)+

theorem process_magang_stores_float32_mean_witness:
  "sqlite3_connect example_db = Inr \<lparr>magang_table = Some [], absensi_table = Some []\<rparr>
   \<and> magang_table \<lparr>magang_table = Some [], absensi_table = Some []\<rparr> = Some []
   \<and> [[Finite 1, Finite 3], [Finite 3, Finite 5]] \<noteq> []
   \<and> list_all (\<lambda>e. length e = 2) [[Finite 1, Finite 3], [Finite 3, Finite 5]]
   \<and> (\<exists>f' avg.
     process_magang example_astype example_now (example_db, 0) ''A001'' ''Ana''
         [[Finite 1, Finite 3], [Finite 3, Finite 5]]
       = Inr (f', 0 + length [[Finite 1, Finite 3], [Finite 3, Finite 5]])
     \<and> length avg = 2
     \<and> (\<forall>j<2. avg ! j =
           fdiv (foldl fadd (hd [[Finite 1, Finite 3], [Finite 3, Finite 5]] ! j)
                   (map (\<lambda>e. e ! j) (tl [[Finite 1, Finite 3], [Finite 3, Finite 5]])))
                (round_float32 (real (length [[Finite 1, Finite 3], [Finite 3, Finite 5]]))))
     \<and> (\<forall>xs. [[Finite 1, Finite 3], [Finite 3, Finite 5]] = map (map Finite) xs \<longrightarrow>
          (\<forall>j<2. no_rounding (map (\<lambda>x. x ! j) xs) \<longrightarrow>
             avg ! j = Finite (sum_list (map (\<lambda>x. x ! j) xs) / real (length xs))))
     \<and> (\<exists>row. filter (\<lambda>r. row_id r = ''A001'') (magang_rows f') = [row]
          \<and> row_nama row = ''Ana''
          \<and> np_frombuffer (row_master_embedding row) = Inr (map example_astype avg)))"
proof -
  let ?db = "\<lparr>magang_table = Some [], absensi_table = Some []\<rparr>"
  let ?E = "[[Finite 1, Finite 3], [Finite 3, Finite 5]]"
  have h1: "sqlite3_connect example_db = Inr ?db"
    by (simp add: sqlite3_connect_def example_db_def)
  have h2: "magang_table ?db = Some []"
    by simp
  have h3: "?E \<noteq> []"
    by simp
  have h4: "\<forall>e\<in>set ?E. length e = 2"
    by simp
  have h4': "list_all (\<lambda>e. length e = 2) ?E"
    by simp
  show ?thesis
    using h1 h2 h3 h4'
      process_magang_stores_float32_mean [OF h1 h2 h3 h4, of example_astype example_now 0
        "''A001''" "''Ana''"]
    by blast
qed

text \<open>The mean of the two embeddings of the example, evaluated.\<close>

lemma np_mean_axis0_example: "np_mean_axis0 [Finite 1, Finite 3] [[Finite 3, Finite 5]]
    = Inr [Finite 2, Finite 4]"
  by (simp add: np_mean_axis0_def round_float32_small)

text \<open>
  Claim C5 as it is stated, for every collection of embeddings, fails where a sum or the
  quotient rounds. For the three embeddings \<open>[33554436]\<close>, \<open>[1]\<close> and \<open>[5]\<close>, all of them
  values of \<^verbatim>\<open>float32\<close>, the running sums are rounded to 33554436 and 33554440 and the
  reference embedding is \<open>[11184813]\<close>, while the mean of the three is 11184814, a value
  of \<^verbatim>\<open>float32\<close> too.
\<close>

theorem np_mean_axis0_rounded_counterexample:
  "np_mean_axis0 [Finite 33554436] [[Finite 1], [Finite 5]] = Inr [Finite 11184813]
   \<and> (33554436 + 1 + 5) / 3 = (11184814 :: real)"
  by (simp add: np_mean_axis0_def round_float32_small round_float32_mean_example)

end
